theory Spec2Isabelle
  imports Complex_Main "HOL-Library.AList" "HOL-Library.Sublist"
begin

section \<open>Python values, exceptions and printed output\<close>

text \<open>
  The module \<^verbatim>\<open>ncempy/io/emd.py\<close> raises Python exceptions and reports several failures
  only through \<^verbatim>\<open>print\<close>. Exceptions are values of \<open>error\<close>; every \<^verbatim>\<open>print\<close> of the module
  is a constructor of \<open>message\<close> that carries the arguments of the format string, and the
  lines printed so far are part of the state.
\<close>

datatype error =
    TypeError string
  | RuntimeError string
  | ValueError string
  | Exception string
  | IndexError
  | KeyError string
  | AttributeError
  | OSError
  | StoreError

text \<open>Scalar attribute values of the store: an integer or a byte string.\<close>

datatype scalar = SInt int | SBytes string

datatype message =
    WarnVersion02 scalar scalar
  | WarnVersion05 scalar scalar
  | ErrorOpeningReadonly string
  | ErrorOpeningReadWrite string
  | GroupDoesNotExist
  | ContentNotEmdShape string
  | Overwriting string string
  | AlreadyExists string string
  | WentWrongWriting

section \<open>Arrays and dim vectors\<close>

text \<open>
  A numpy array is its shape and its elements in row-major order. Element values are
  stored and read back unchanged by the module; they are modelled as reals.
\<close>

record ndarray =
  shape :: "nat list"
  elems :: "real list"

definition ndim :: "ndarray \<Rightarrow> nat" where
  "ndim a = length (shape a)"

text \<open>A dim is the triple \<^verbatim>\<open>(vec, name, units)\<close>; \<^verbatim>\<open>dim[0]\<close> is a numpy array.\<close>

type_synonym dim = "ndarray \<times> string \<times> string"

section \<open>Text formatting\<close>

definition digit_char :: "nat \<Rightarrow> char" where
  "digit_char d = ''0123456789'' ! d"

text \<open>\<^verbatim>\<open>'{}'.format(n)\<close> for a non-negative integer: its decimal digits.\<close>

fun str_nat :: "nat \<Rightarrow> string" where
  "str_nat n = (if n < 10 then [digit_char n] else str_nat (n div 10) @ [digit_char (n mod 10)])"

declare str_nat.simps [simp del]

text \<open>\<^verbatim>\<open>s.split(c)\<close>: the pieces between the occurrences of the separator, empty ones included.\<close>

fun split_on :: "char \<Rightarrow> string \<Rightarrow> string list" where
  "split_on c [] = [[]]"
| "split_on c (x # xs) =
     (if x = c then [] # split_on c xs
      else (case split_on c xs of [] \<Rightarrow> [[x]] | w # ws \<Rightarrow> (x # w) # ws))"

section \<open>defaultDims\<close>

text \<open>
  The argument \<^verbatim>\<open>pixel_size\<close> is \<^verbatim>\<open>None\<close>, a sequence (tuple or list) or a numpy array.
\<close>

datatype pixel_size_arg = PNone | PSeq "real list" | PNdarray "real list"

text \<open>\<^verbatim>\<open>not pixel_size\<close>: \<^verbatim>\<open>None\<close> and the empty sequence are falsy.\<close>

fun not_pixel_size :: "pixel_size_arg \<Rightarrow> bool" where
  "not_pixel_size PNone = True"
| "not_pixel_size (PSeq ps) = (ps = [])"
| "not_pixel_size (PNdarray ps) = (ps = [])"

fun pixel_seq :: "pixel_size_arg \<Rightarrow> real list" where
  "pixel_seq PNone = []"
| "pixel_seq (PSeq ps) = ps"
| "pixel_seq (PNdarray ps) = ps"

text \<open>
  \<^verbatim>\<open>np.linspace(0, n - 1, n)\<close>: the one-dimensional array of the \<open>n\<close> values
  \<open>0, 1, ..., n - 1\<close>; \<^verbatim>\<open>arr * x\<close> multiplies every element.
\<close>

definition linspace0 :: "nat \<Rightarrow> ndarray" where
  "linspace0 n = \<lparr>shape = [n], elems = map real [0..<n]\<rparr>"

definition times_scalar :: "ndarray \<Rightarrow> real \<Rightarrow> ndarray" where
  "times_scalar arr x = arr\<lparr>elems := map (\<lambda>v. v * x) (elems arr)\<rparr>"

definition curDim :: "ndarray \<Rightarrow> real list \<Rightarrow> nat \<Rightarrow> dim" where
  "curDim data pixel_size ii =
     (times_scalar (linspace0 (shape data ! ii)) (pixel_size ! ii),
      ''dim'' @ str_nat (ii + 1), ''unit'' @ str_nat (ii + 1))"

definition defaultDims :: "ndarray \<Rightarrow> pixel_size_arg \<Rightarrow> error + dim list" where
  "defaultDims data pixel_size =
     (case pixel_size of
        PNdarray _ \<Rightarrow> Inl (Exception ''pixel_size must be a tuple'')
      | _ \<Rightarrow>
         (let num = ndim data;
              pixel_size' = (if not_pixel_size pixel_size then replicate num 1
                             else pixel_seq pixel_size)
          in if length pixel_size' \<noteq> ndim data
             then Inl (ValueError ''pixel_size and data dimensions must match'')
             else Inr (map (curDim data pixel_size') [0..<num])))"

section \<open>The hierarchical store\<close>

text \<open>
  The module works on an HDF5 file through \<^verbatim>\<open>h5py\<close>. The file is a tree: a group has
  attributes and named children, a dataset has attributes and an array. Children are kept
  in the order in which the store enumerates them (where a new child falls in that order is
  the store's choice; here it comes last); names within one group are unique in a store
  (\<open>wf_node\<close> below). Attributes of groups are scalars; an attribute of a dataset may also
  be an array of scalars, the form \<^verbatim>\<open>get_emddims\<close> unwraps.
\<close>

datatype dattr = DScalar scalar | DArray "scalar list"

datatype node =
    Group "(string \<times> scalar) list" "(string \<times> node) list"
  | Dataset "(string \<times> dattr) list" ndarray

text \<open>
  A handle to a group or dataset is the path of names leading to it from the root of the
  file; a name is one path component. \<^verbatim>\<open>obj.name\<close> is the path written with slashes.
\<close>

type_synonym path = "string list"

fun join_slash :: "string list \<Rightarrow> string" where
  "join_slash [] = []"
| "join_slash [x] = x"
| "join_slash (x # y # zs) = x @ CHR ''/'' # join_slash (y # zs)"

definition hdf5_name :: "path \<Rightarrow> string" where
  "hdf5_name p = CHR ''/'' # join_slash p"

primrec get_node :: "path \<Rightarrow> node \<Rightarrow> node option" where
  "get_node [] n = Some n"
| "get_node (k # ks) n =
     (case n of
        Group a cs \<Rightarrow> (case map_of cs k of None \<Rightarrow> None | Some c \<Rightarrow> get_node ks c)
      | Dataset a d \<Rightarrow> None)"

primrec map_node :: "path \<Rightarrow> (node \<Rightarrow> node) \<Rightarrow> node \<Rightarrow> node" where
  "map_node [] f n = f n"
| "map_node (k # ks) f n =
     (case n of
        Group a cs \<Rightarrow> Group a (AList.map_entry k (map_node ks f) cs)
      | Dataset a d \<Rightarrow> n)"

fun group_attrs :: "node \<Rightarrow> (string \<times> scalar) list" where
  "group_attrs (Group a cs) = a"
| "group_attrs (Dataset a d) = []"

fun set_group_attr :: "string \<Rightarrow> scalar \<Rightarrow> node \<Rightarrow> node" where
  "set_group_attr k v (Group a cs) = Group (AList.update k v a) cs"
| "set_group_attr k v (Dataset a d) = Dataset a d"

fun set_dset_attr :: "string \<Rightarrow> dattr \<Rightarrow> node \<Rightarrow> node" where
  "set_dset_attr k v (Dataset a d) = Dataset (AList.update k v a) d"
| "set_dset_attr k v (Group a cs) = Group a cs"

fun add_child :: "string \<Rightarrow> node \<Rightarrow> node \<Rightarrow> node" where
  "add_child k c (Group a cs) = Group a (cs @ [(k, c)])"
| "add_child k c (Dataset a d) = Dataset a d"

fun remove_child :: "string \<Rightarrow> node \<Rightarrow> node" where
  "remove_child k (Group a cs) = Group a (AList.delete k cs)"
| "remove_child k (Dataset a d) = Dataset a d"

text \<open>
  An open file: its tree and the mode it was opened in, \<^verbatim>\<open>'r'\<close> (read-only) or \<^verbatim>\<open>'a'\<close>
  (read/write, created when absent). Every mutation of a file opened with \<^verbatim>\<open>'r'\<close> raises;
  all failures of the store itself are the one error \<open>StoreError\<close>.
\<close>

datatype file_mode = ModeR | ModeA

record h5file =
  root :: node
  fmode :: file_mode

text \<open>\<^verbatim>\<open>label in group\<close>\<close>

definition h5_contains :: "h5file \<Rightarrow> path \<Rightarrow> string \<Rightarrow> error + bool" where
  "h5_contains f p label =
     (case get_node p (root f) of
        Some (Group a cs) \<Rightarrow> Inr (map_of cs label \<noteq> None)
      | _ \<Rightarrow> Inl StoreError)"

text \<open>\<^verbatim>\<open>group[label]\<close>\<close>

definition h5_getitem :: "h5file \<Rightarrow> path \<Rightarrow> string \<Rightarrow> error + node" where
  "h5_getitem f p label =
     (case get_node p (root f) of
        Some (Group a cs) \<Rightarrow>
          (case map_of cs label of None \<Rightarrow> Inl (KeyError label) | Some c \<Rightarrow> Inr c)
      | _ \<Rightarrow> Inl StoreError)"

text \<open>\<^verbatim>\<open>group.create_group(label)\<close> and \<^verbatim>\<open>group.create_dataset(label, data=arr)\<close>\<close>

definition h5_create :: "h5file \<Rightarrow> path \<Rightarrow> string \<Rightarrow> node \<Rightarrow> error + h5file" where
  "h5_create f p label c =
     (if fmode f = ModeR then Inl StoreError
      else (case get_node p (root f) of
              Some (Group a cs) \<Rightarrow>
                (if map_of cs label \<noteq> None then Inl StoreError
                 else Inr (f\<lparr>root := map_node p (add_child label c) (root f)\<rparr>))
            | _ \<Rightarrow> Inl StoreError))"

definition create_group :: "h5file \<Rightarrow> path \<Rightarrow> string \<Rightarrow> error + h5file" where
  "create_group f p label = h5_create f p label (Group [] [])"

definition create_dataset :: "h5file \<Rightarrow> path \<Rightarrow> string \<Rightarrow> ndarray \<Rightarrow> error + h5file" where
  "create_dataset f p label arr = h5_create f p label (Dataset [] arr)"

text \<open>\<^verbatim>\<open>del group[label]\<close>\<close>

definition h5_del :: "h5file \<Rightarrow> path \<Rightarrow> string \<Rightarrow> error + h5file" where
  "h5_del f p label =
     (if fmode f = ModeR then Inl StoreError
      else (case get_node p (root f) of
              Some (Group a cs) \<Rightarrow>
                (if map_of cs label = None then Inl (KeyError label)
                 else Inr (f\<lparr>root := map_node p (remove_child label) (root f)\<rparr>))
            | _ \<Rightarrow> Inl StoreError))"

text \<open>\<^verbatim>\<open>group.attrs[k] = v\<close> and \<^verbatim>\<open>dset.attrs[k] = v\<close>\<close>

definition attrs_set :: "h5file \<Rightarrow> path \<Rightarrow> string \<Rightarrow> scalar \<Rightarrow> error + h5file" where
  "attrs_set f p k v =
     (if fmode f = ModeR then Inl StoreError
      else (case get_node p (root f) of
              Some (Group a cs) \<Rightarrow> Inr (f\<lparr>root := map_node p (set_group_attr k v) (root f)\<rparr>)
            | _ \<Rightarrow> Inl StoreError))"

definition dset_attrs_set :: "h5file \<Rightarrow> path \<Rightarrow> string \<Rightarrow> dattr \<Rightarrow> error + h5file" where
  "dset_attrs_set f p k v =
     (if fmode f = ModeR then Inl StoreError
      else (case get_node p (root f) of
              Some (Dataset a d) \<Rightarrow> Inr (f\<lparr>root := map_node p (set_dset_attr k v) (root f)\<rparr>)
            | _ \<Rightarrow> Inl StoreError))"

text \<open>
  \<^verbatim>\<open>dset[:]\<close> loads the whole array; \<^verbatim>\<open>h5py\<close> refuses the slice on a dataset without axes.
\<close>

definition read_slice :: "ndarray \<Rightarrow> error + ndarray" where
  "read_slice arr =
     (if shape arr = [] then Inl (ValueError ''Illegal slicing argument for scalar dataspace'')
      else Inr arr)"

section \<open>The class fileEMD and its subclass fileEMD\_v05\<close>

text \<open>
  The class of the object decides which \<^verbatim>\<open>check_version\<close> and \<^verbatim>\<open>_get_dset_string\<close> run.
  The fields are those set by \<^verbatim>\<open>__init__\<close>; \<open>stdout\<close> collects what the methods print.
\<close>

datatype emd_class = FileEMD | FileEMD_v05

datatype filename_arg = FStr string | FPath string | FOther

record fileEMD =
  cls :: emd_class
  filename :: filename_arg
  readonly :: bool
  file_hdl :: h5file
  version :: "(scalar \<times> scalar) option"
  data :: "path option"
  microscope :: "path option"
  sample :: "path option"
  user :: "path option"
  comments :: "path option"
  list_emds :: "path list"
  stdout :: "message list"

definition print :: "message \<Rightarrow> fileEMD \<Rightarrow> fileEMD" where
  "print m self = self\<lparr>stdout := stdout self @ [m]\<rparr>"

subsection \<open>check\_version\<close>

definition has_version :: "fileEMD \<Rightarrow> bool" where
  "has_version self =
     (map_of (group_attrs (root (file_hdl self))) ''version_major'' \<noteq> None \<and>
      map_of (group_attrs (root (file_hdl self))) ''version_minor'' \<noteq> None)"

definition read_version :: "fileEMD \<Rightarrow> scalar \<times> scalar" where
  "read_version self =
     (the (map_of (group_attrs (root (file_hdl self))) ''version_major''),
      the (map_of (group_attrs (root (file_hdl self))) ''version_minor''))"

definition check_version_v02 :: "fileEMD \<Rightarrow> error + fileEMD" where
  "check_version_v02 self =
     (if has_version self then
        (let self1 = self\<lparr>version := Some (read_version self)\<rparr>
         in if read_version self \<noteq> (SInt 0, SInt 2)
            then Inr (print (WarnVersion02 (fst (read_version self)) (snd (read_version self))) self1)
            else Inr self1)
      else if \<not> readonly self then
        (case attrs_set (file_hdl self) [] ''version_major'' (SInt 0) of
           Inl e \<Rightarrow> Inl e
         | Inr f1 \<Rightarrow>
            (case attrs_set f1 [] ''version_minor'' (SInt 2) of
               Inl e \<Rightarrow> Inl e
             | Inr f2 \<Rightarrow> Inr (self\<lparr>file_hdl := f2\<rparr>)))
      else Inr self)"

definition check_version_v05 :: "fileEMD \<Rightarrow> error + fileEMD" where
  "check_version_v05 self =
     (if has_version self then
        (let self1 = self\<lparr>version := Some (read_version self)\<rparr>
         in if read_version self \<noteq> (SInt 0, SInt 5)
            then Inr (print (WarnVersion05 (fst (read_version self)) (snd (read_version self))) self1)
            else Inr self1)
      else Inr self)"

definition check_version :: "fileEMD \<Rightarrow> error + fileEMD" where
  "check_version self =
     (case cls self of FileEMD \<Rightarrow> check_version_v02 self | FileEMD_v05 \<Rightarrow> check_version_v05 self)"

subsection \<open>find\_emdgroups\<close>

text \<open>
  \<^verbatim>\<open>proc_group(group, emds)\<close> looks at each item of the group in turn; a child that is a
  group is appended to \<^verbatim>\<open>emds\<close> when its attribute \<^verbatim>\<open>emd_group_type\<close> is 1, and is then
  processed itself. \<open>proc_items\<close> is the \<^verbatim>\<open>for\<close> loop over the remaining items.
\<close>

fun proc_group :: "path \<Rightarrow> node \<Rightarrow> path list \<Rightarrow> path list"
  and proc_items :: "path \<Rightarrow> (string \<times> node) list \<Rightarrow> path list \<Rightarrow> path list" where
  "proc_group p (Group a cs) emds = proc_items p cs emds"
| "proc_group p (Dataset a d) emds = emds"
| "proc_items p [] emds = emds"
| "proc_items p ((item, c) # rest) emds =
     (case c of
        Group a cs \<Rightarrow>
          proc_items p rest
            (proc_group (p @ [item]) c
               (if map_of a ''emd_group_type'' \<noteq> None
                then (if map_of a ''emd_group_type'' = Some (SInt 1)
                      then emds @ [p @ [item]] else emds)
                else emds))
      | Dataset a d \<Rightarrow> proc_items p rest emds)"

definition find_emdgroups :: "h5file \<Rightarrow> path \<Rightarrow> path list" where
  "find_emdgroups f parent =
     (case get_node parent (root f) of None \<Rightarrow> [] | Some g \<Rightarrow> proc_group parent g [])"

subsection \<open>\_get\_dset\_string\<close>

text \<open>
  \<^verbatim>\<open>xs[i]\<close> for a Python list: positions \<open>0 .. len - 1\<close> from the front, \<open>-1 .. -len\<close>
  from the back, \<^verbatim>\<open>IndexError\<close> outside.
\<close>

definition py_index :: "'a list \<Rightarrow> int \<Rightarrow> error + 'a" where
  "py_index xs i =
     (if 0 \<le> i \<and> i < int (length xs) then Inr (xs ! nat i)
      else if i < 0 \<and> - int (length xs) \<le> i then Inr (xs ! (length xs - nat (- i)))
      else Inl IndexError)"

text \<open>The argument is \<^verbatim>\<open>group.name\<close>.\<close>

definition get_dset_string :: "emd_class \<Rightarrow> string \<Rightarrow> error + string" where
  "get_dset_string c name =
     (case c of
        FileEMD \<Rightarrow> Inr ''data''
      | FileEMD_v05 \<Rightarrow>
          (case py_index (split_on CHR ''/'' name) (- 2) of
             Inl e \<Rightarrow> Inl e
           | Inr parent_name \<Rightarrow>
               if parent_name = ''datacubes'' then Inr ''datacube''
               else if parent_name = ''diffractionslices'' then Inr ''diffractionslice''
               else if parent_name = ''pointlistarrayss'' then Inr ''pointlistarray''
               else if parent_name = ''pointlists'' then Inr ''pointlist''
               else if parent_name = ''realslices'' then Inr ''realslice''
               else Inl (ValueError ''dset name not supported'')))"

subsection \<open>get\_emddims and get\_emdgroup\<close>

text \<open>
  \<^verbatim>\<open>name = dim.attrs['name'][0]\<close> when the attribute is an array, the attribute itself
  otherwise; \<^verbatim>\<open>name.decode('utf-8')\<close> exists for byte strings only. Text is modelled by
  its bytes.
\<close>

fun unwrap_attr :: "dattr \<Rightarrow> error + scalar" where
  "unwrap_attr (DArray []) = Inl IndexError"
| "unwrap_attr (DArray (x # xs)) = Inr x"
| "unwrap_attr (DScalar x) = Inr x"

fun decode :: "scalar \<Rightarrow> error + string" where
  "decode (SBytes b) = Inr b"
| "decode (SInt i) = Inl AttributeError"

text \<open>One pass of the loop of \<^verbatim>\<open>get_emddims\<close>, for axis \<open>i\<close>.\<close>

definition read_dim :: "h5file \<Rightarrow> path \<Rightarrow> nat \<Rightarrow> error + dim" where
  "read_dim f grp i =
     (case h5_getitem f grp (''dim'' @ str_nat (i + 1)) of
        Inl e \<Rightarrow> Inl e
      | Inr (Group a cs) \<Rightarrow>
          (if map_of a ''name'' = None then Inl (KeyError ''name'')
           else if map_of a ''units'' = None then Inl (KeyError ''units'')
           else Inl (TypeError ''Accessing a group is done with bytes or str, not slice''))
      | Inr (Dataset a vec) \<Rightarrow>
          (case map_of a ''name'' of
             None \<Rightarrow> Inl (KeyError ''name'')
           | Some nv \<Rightarrow>
          (case unwrap_attr nv of
             Inl e \<Rightarrow> Inl e
           | Inr name \<Rightarrow>
          (case map_of a ''units'' of
             None \<Rightarrow> Inl (KeyError ''units'')
           | Some uv \<Rightarrow>
          (case unwrap_attr uv of
             Inl e \<Rightarrow> Inl e
           | Inr units \<Rightarrow>
          (case read_slice vec of
             Inl e \<Rightarrow> Inl e
           | Inr v \<Rightarrow>
          (case decode name of
             Inl e \<Rightarrow> Inl e
           | Inr name' \<Rightarrow>
          (case decode units of
             Inl e \<Rightarrow> Inl e
           | Inr units' \<Rightarrow> Inr (v, name', units')))))))))"

fun get_emddims_loop :: "h5file \<Rightarrow> path \<Rightarrow> nat list \<Rightarrow> error + dim list" where
  "get_emddims_loop f grp [] = Inr []"
| "get_emddims_loop f grp (i # rest) =
     (case read_dim f grp i of
        Inl e \<Rightarrow> Inl e
      | Inr d \<Rightarrow>
          (case get_emddims_loop f grp rest of
             Inl e \<Rightarrow> Inl e
           | Inr ds \<Rightarrow> Inr (d # ds)))"

definition get_emddims :: "fileEMD \<Rightarrow> path \<Rightarrow> error + dim list" where
  "get_emddims self grp =
     (case get_dset_string (cls self) (hdf5_name grp) of
        Inl e \<Rightarrow> Inl e
      | Inr ds \<Rightarrow>
          (case h5_getitem (file_hdl self) grp ds of
             Inl e \<Rightarrow> Inl e
           | Inr (Group a cs) \<Rightarrow> Inl AttributeError
           | Inr (Dataset a arr) \<Rightarrow>
               get_emddims_loop (file_hdl self) grp [0..<length (shape arr)]))"

text \<open>The body of the \<^verbatim>\<open>try\<close> of \<^verbatim>\<open>get_emdgroup\<close>.\<close>

definition retrieve_data :: "fileEMD \<Rightarrow> path \<Rightarrow> bool \<Rightarrow> error + ndarray \<times> dim list" where
  "retrieve_data self grp memmap =
     (case get_dset_string (cls self) (hdf5_name grp) of
        Inl e \<Rightarrow> Inl e
      | Inr ds \<Rightarrow>
          (case h5_getitem (file_hdl self) grp ds of
             Inl e \<Rightarrow> Inl e
           | Inr (Group a cs) \<Rightarrow>
               (if memmap then Inl AttributeError
                else Inl (TypeError ''Accessing a group is done with bytes or str, not slice''))
           | Inr (Dataset a arr) \<Rightarrow>
               (case (if memmap then Inr arr else read_slice arr) of
                  Inl e \<Rightarrow> Inl e
                | Inr dat \<Rightarrow>
                    (case get_emddims self grp of
                       Inl e \<Rightarrow> Inl e
                     | Inr dims \<Rightarrow> Inr (dat, dims)))))"

text \<open>
  The argument \<^verbatim>\<open>group\<close> is a group handle, an integer or something else. A handle that
  no longer leads to a group of the file is refused by the store.
\<close>

datatype group_arg = GroupH path | IntArg int | OtherArg

definition get_emdgroup_h5 ::
  "fileEMD \<Rightarrow> path \<Rightarrow> bool \<Rightarrow> (error + (ndarray \<times> dim list) option) \<times> fileEMD" where
  "get_emdgroup_h5 self grp memmap =
     (case get_node grp (root (file_hdl self)) of
        Some (Group a cs) \<Rightarrow>
          (if map_of a ''emd_group_type'' = None
           then (Inl (TypeError ''group is not a emd_group_type group!''), self)
           else if map_of a ''emd_group_type'' \<noteq> Some (SInt 1)
           then (Inl (TypeError ''group is not a emd_group_type group!''), self)
           else (case retrieve_data self grp memmap of
                   Inl e \<Rightarrow> (Inr None, print (ContentNotEmdShape (hdf5_name grp)) self)
                 | Inr r \<Rightarrow> (Inr (Some r), self)))
      | _ \<Rightarrow> (Inl StoreError, self))"

definition get_emdgroup ::
  "fileEMD \<Rightarrow> group_arg \<Rightarrow> bool \<Rightarrow> (error + (ndarray \<times> dim list) option) \<times> fileEMD" where
  "get_emdgroup self grp memmap =
     (case grp of
        GroupH g \<Rightarrow> get_emdgroup_h5 self g memmap
      | IntArg i \<Rightarrow>
          (case py_index (list_emds self) i of
             Inl e \<Rightarrow> (Inr None, print GroupDoesNotExist self)
           | Inr g \<Rightarrow> get_emdgroup_h5 self g memmap)
      | OtherArg \<Rightarrow> (Inl (TypeError ''group needs to refer to a valid HDF5 group!''), self))"

definition get_memmap ::
  "fileEMD \<Rightarrow> group_arg \<Rightarrow> (error + (ndarray \<times> dim list) option) \<times> fileEMD" where
  "get_memmap self grp = get_emdgroup self grp True"

subsection \<open>write\_dim and put\_emdgroup\<close>

definition write_dim :: "h5file \<Rightarrow> string \<Rightarrow> dim \<Rightarrow> path \<Rightarrow> (error + path) \<times> h5file" where
  "write_dim f label d parent =
     (case create_dataset f parent label (fst d) of
        Inl e \<Rightarrow> (Inl (RuntimeError ''Error during writing dim dataset''), f)
      | Inr f1 \<Rightarrow>
     (case dset_attrs_set f1 (parent @ [label]) ''name'' (DScalar (SBytes (fst (snd d)))) of
        Inl e \<Rightarrow> (Inl (RuntimeError ''Error during writing dim dataset''), f1)
      | Inr f2 \<Rightarrow>
     (case dset_attrs_set f2 (parent @ [label]) ''units'' (DScalar (SBytes (snd (snd d)))) of
        Inl e \<Rightarrow> (Inl (RuntimeError ''Error during writing dim dataset''), f2)
      | Inr f3 \<Rightarrow> (Inr (parent @ [label]), f3))))"

text \<open>
  \<^verbatim>\<open>put_emdgroup\<close> calls \<^verbatim>\<open>self.write_dim(dims[i], grp)\<close>: two arguments for the three
  parameters \<^verbatim>\<open>(label, dim, parent)\<close>. Python raises \<^verbatim>\<open>TypeError\<close> at the call, before
  the body of \<^verbatim>\<open>write_dim\<close> runs, so the store is not touched by the call.
\<close>

definition write_dim_call :: "h5file \<Rightarrow> dim \<Rightarrow> path \<Rightarrow> (error + path) \<times> h5file" where
  "write_dim_call f d grp =
     (Inl (TypeError ''write_dim() missing 1 required positional argument: parent''), f)"

fun write_dims_loop :: "h5file \<Rightarrow> dim list \<Rightarrow> path \<Rightarrow> (error + unit) \<times> h5file" where
  "write_dims_loop f [] grp = (Inr (), f)"
| "write_dims_loop f (d # rest) grp =
     (case write_dim_call f d grp of
        (Inl e, f1) \<Rightarrow> (Inl e, f1)
      | (Inr h, f1) \<Rightarrow> write_dims_loop f1 rest grp)"

text \<open>
  The check of the input: \<^verbatim>\<open>len(dims) == len(data.shape)\<close> and, for every \<open>i\<close>,
  \<^verbatim>\<open>dims[i][0].shape[0] == data.shape[i]\<close> (\<^verbatim>\<open>shape[0]\<close> of an array without axes raises).
  \<^verbatim>\<open>len(dims[i]) == 3\<close> holds for every triple.
\<close>

definition dims_ok :: "dim list \<Rightarrow> ndarray \<Rightarrow> bool" where
  "dims_ok dims dat =
     (length dims = length (shape dat) \<and>
      list_all (\<lambda>i. shape (fst (dims ! i)) \<noteq> [] \<and> hd (shape (fst (dims ! i))) = shape dat ! i)
        [0..<length dims])"

datatype str_arg = Str string | NotStr

datatype data_arg = Ndarray ndarray | NotNdarray

text \<open>
  The part of the \<^verbatim>\<open>try\<close> after the group was created: the attribute, the dataset, the
  dims, the new list of groups. The keyword arguments passed on to \<^verbatim>\<open>create_dataset\<close>
  (compression and the like) do not change what the dataset holds and are left out.
\<close>

definition fill_emdgroup ::
  "fileEMD \<Rightarrow> path \<Rightarrow> ndarray \<Rightarrow> dim list \<Rightarrow> (error + path) \<times> fileEMD" where
  "fill_emdgroup self grp dat dims =
     (case attrs_set (file_hdl self) grp ''emd_group_type'' (SInt 1) of
        Inl e \<Rightarrow> (Inl e, self)
      | Inr f1 \<Rightarrow>
     (case create_dataset f1 grp ''data'' dat of
        Inl e \<Rightarrow> (Inl e, self\<lparr>file_hdl := f1\<rparr>)
      | Inr f2 \<Rightarrow>
     (case write_dims_loop f2 dims grp of
        (Inl e, f3) \<Rightarrow> (Inl e, self\<lparr>file_hdl := f3\<rparr>)
      | (Inr u, f3) \<Rightarrow>
          (Inr grp, self\<lparr>file_hdl := f3, list_emds := find_emdgroups f3 []\<rparr>))))"

text \<open>
  The body of the \<^verbatim>\<open>try\<close>. The target is \<^verbatim>\<open>parent\<close> when one is given (a handle is
  truthy), \<^verbatim>\<open>self.data\<close> otherwise; \<^verbatim>\<open>label in None\<close> raises.
\<close>

definition put_emdgroup_try ::
  "fileEMD \<Rightarrow> string \<Rightarrow> ndarray \<Rightarrow> dim list \<Rightarrow> path option \<Rightarrow> bool
     \<Rightarrow> (error + path) \<times> fileEMD" where
  "put_emdgroup_try self label dat dims parent overwrite =
     (case (case parent of Some p \<Rightarrow> Some p | None \<Rightarrow> data self) of
        None \<Rightarrow> (Inl (TypeError ''argument of type NoneType is not iterable''), self)
      | Some target \<Rightarrow>
     (case h5_contains (file_hdl self) target label of
        Inl e \<Rightarrow> (Inl e, self)
      | Inr occupied \<Rightarrow>
          if occupied \<and> \<not> overwrite
          then (Inl (RuntimeError ''already exists''),
                print (AlreadyExists label (hdf5_name target)) self)
          else
            (let self1 = (if occupied then print (Overwriting label (hdf5_name target)) self
                          else self)
             in case (if occupied then h5_del (file_hdl self1) target label
                      else Inr (file_hdl self1)) of
                  Inl e \<Rightarrow> (Inl e, self1)
                | Inr f1 \<Rightarrow>
                    (case create_group f1 target label of
                       Inl e \<Rightarrow> (Inl e, self1\<lparr>file_hdl := f1\<rparr>)
                     | Inr f2 \<Rightarrow>
                         fill_emdgroup (self1\<lparr>file_hdl := f2\<rparr>) (target @ [label]) dat dims))))"

definition put_emdgroup ::
  "fileEMD \<Rightarrow> str_arg \<Rightarrow> data_arg \<Rightarrow> dim list \<Rightarrow> path option \<Rightarrow> bool
     \<Rightarrow> (error + path option) \<times> fileEMD" where
  "put_emdgroup self label dat dims parent overwrite =
     (case label of
        NotStr \<Rightarrow> (Inl (TypeError ''label needs to be string!''), self)
      | Str l \<Rightarrow>
     (case dat of
        NotNdarray \<Rightarrow> (Inl (TypeError ''data needs to be a numpy.ndarray!''), self)
      | Ndarray arr \<Rightarrow>
          if \<not> dims_ok dims arr
          then (Inl (TypeError ''Something wrong with the provided dims''), self)
          else (case put_emdgroup_try self l arr dims parent overwrite of
                  (Inl e, self') \<Rightarrow> (Inr None, print WentWrongWriting self')
                | (Inr grp, self') \<Rightarrow> (Inr (Some grp), self'))))"

subsection \<open>put\_comment\<close>



subsection \<open>Construction\<close>

text \<open>
  What \<^verbatim>\<open>h5py.File(filename, mode)\<close> finds under a file name: nothing, an HDF5 file, or
  something it cannot open. Mode \<^verbatim>\<open>'r'\<close> needs an HDF5 file; mode \<^verbatim>\<open>'a'\<close> creates an empty
  file when there is none.
\<close>

datatype fs_entry = Absent | Hdf5 node | Unreadable

definition h5py_File :: "(string \<Rightarrow> fs_entry) \<Rightarrow> string \<Rightarrow> file_mode \<Rightarrow> error + h5file" where
  "h5py_File fs name m =
     (case fs name of
        Hdf5 n \<Rightarrow> Inr \<lparr>root = n, fmode = m\<rparr>
      | Absent \<Rightarrow> (if m = ModeA then Inr \<lparr>root = Group [] [], fmode = ModeA\<rparr> else Inl OSError)
      | Unreadable \<Rightarrow> Inl OSError)"

text \<open>
  One of the five blocks of \<^verbatim>\<open>__init__\<close>: the handle of the root group \<open>name\<close>, created
  when it is absent and the object is not read-only, \<^verbatim>\<open>None\<close> when absent and read-only.
\<close>

definition init_group :: "h5file \<Rightarrow> bool \<Rightarrow> string \<Rightarrow> error + h5file \<times> path option" where
  "init_group f ro name =
     (case h5_contains f [] name of
        Inl e \<Rightarrow> Inl e
      | Inr present \<Rightarrow>
          if \<not> present then
            (if \<not> ro then
               (case create_group f [] name of
                  Inl e \<Rightarrow> Inl e
                | Inr f1 \<Rightarrow> Inr (f1, Some [name]))
             else Inr (f, None))
          else Inr (f, Some [name]))"

text \<open>
  \<^verbatim>\<open>fileEMD.__init__(self, filename, readonly)\<close>, run for an object of class \<open>c\<close>. An
  exception leaves no object; it is returned with the lines printed before it. An open
  file is truthy, so the branch \<^verbatim>\<open>if self.file_hdl\<close> is always taken.
\<close>

definition fileEMD_init ::
  "emd_class \<Rightarrow> (string \<Rightarrow> fs_entry) \<Rightarrow> filename_arg \<Rightarrow> bool
     \<Rightarrow> (error \<times> message list) + fileEMD" where
  "fileEMD_init c fs fname ro =
     (case (case fname of FStr s \<Rightarrow> Some s | FPath s \<Rightarrow> Some s | FOther \<Rightarrow> None) of
        None \<Rightarrow> Inl (TypeError ''Filename is supposed to be a string or pathlib.Path'', [])
      | Some s \<Rightarrow>
     (case h5py_File fs s (if ro then ModeR else ModeA) of
        Inl e \<Rightarrow> Inl (e, [if ro then ErrorOpeningReadonly s else ErrorOpeningReadWrite s])
      | Inr f \<Rightarrow>
     (case check_version
             \<lparr>cls = c, filename = fname, readonly = ro, file_hdl = f, version = None,
              data = None, microscope = None, sample = None, user = None, comments = None,
              list_emds = [], stdout = []\<rparr> of
        Inl e \<Rightarrow> Inl (e, [])
      | Inr self1 \<Rightarrow>
     (case init_group (file_hdl self1) ro ''data'' of
        Inl e \<Rightarrow> Inl (e, stdout self1)
      | Inr (f1, h1) \<Rightarrow>
     (case init_group f1 ro ''microscope'' of
        Inl e \<Rightarrow> Inl (e, stdout self1)
      | Inr (f2, h2) \<Rightarrow>
     (case init_group f2 ro ''sample'' of
        Inl e \<Rightarrow> Inl (e, stdout self1)
      | Inr (f3, h3) \<Rightarrow>
     (case init_group f3 ro ''user'' of
        Inl e \<Rightarrow> Inl (e, stdout self1)
      | Inr (f4, h4) \<Rightarrow>
     (case init_group f4 ro ''comments'' of
        Inl e \<Rightarrow> Inl (e, stdout self1)
      | Inr (f5, h5) \<Rightarrow>
          Inr (self1\<lparr>file_hdl := f5, data := h1, microscope := h2, sample := h3,
                     user := h4, comments := h5,
                     list_emds := find_emdgroups f5 []\<rparr>)))))))))"

text \<open>
  \<^verbatim>\<open>fileEMD_v05.__init__(self, filename, *args, **kwargs)\<close> calls
  \<^verbatim>\<open>super().__init__(filename, readonly=True)\<close>; the further arguments are any Python
  values.
\<close>

datatype pyval = PyBool bool | PyNone | PyInt int | PyStr string

definition fileEMD_v05_init ::
  "(string \<Rightarrow> fs_entry) \<Rightarrow> filename_arg \<Rightarrow> pyval list \<Rightarrow> (string \<times> pyval) list
     \<Rightarrow> (error \<times> message list) + fileEMD" where
  "fileEMD_v05_init fs fname args kwargs = fileEMD_init FileEMD_v05 fs fname True"

section \<open>Well-formed stores and the pre-order of groups\<close>

text \<open>The names of the children of a group are unique, at every level.\<close>

fun wf_node :: "node \<Rightarrow> bool"
  and wf_children :: "(string \<times> node) list \<Rightarrow> bool" where
  "wf_node (Group a cs) = wf_children cs"
| "wf_node (Dataset a d) = True"
| "wf_children [] = True"
| "wf_children ((k, c) # rest) = (map_of rest k = None \<and> wf_node c \<and> wf_children rest)"

text \<open>A group qualifies when it carries the attribute \<^verbatim>\<open>emd_group_type\<close> with value 1.\<close>

fun emd_typed :: "node \<Rightarrow> bool" where
  "emd_typed (Group a cs) = (map_of a ''emd_group_type'' = Some (SInt 1))"
| "emd_typed (Dataset a d) = False"

fun is_group :: "node \<Rightarrow> bool" where
  "is_group (Group a cs) = True"
| "is_group (Dataset a d) = False"

text \<open>
  The specification of discovery, in the words of the description: the groups below a
  group in depth-first pre-order, each group before the groups inside it, with their
  handles. The group the walk starts from is not among them.
\<close>

fun preorder_groups :: "path \<Rightarrow> node \<Rightarrow> (path \<times> node) list"
  and preorder_children :: "path \<Rightarrow> (string \<times> node) list \<Rightarrow> (path \<times> node) list" where
  "preorder_groups p (Group a cs) = preorder_children p cs"
| "preorder_groups p (Dataset a d) = []"
| "preorder_children p [] = []"
| "preorder_children p ((k, c) # rest) =
     (if is_group c then (p @ [k], c) # preorder_groups (p @ [k]) c else [])
     @ preorder_children p rest"

text \<open>
  The state of an object that \<^verbatim>\<open>__init__\<close> built: it is read-only exactly when its file
  was opened with mode \<^verbatim>\<open>'r'\<close>.
\<close>

definition mode_agrees :: "fileEMD \<Rightarrow> bool" where
  "mode_agrees self = (readonly self = (fmode (file_hdl self) = ModeR))"

section \<open>Verified properties\<close>

subsection \<open>Paths and the store\<close>

lemma get_node_append:
  "get_node (p @ q) n = (case get_node p n of None \<Rightarrow> None | Some m \<Rightarrow> get_node q m)"
  by (induction p arbitrary: n) (auto split: node.splits option.splits)

lemma get_node_map_node:
  "get_node p (map_node p f n) = map_option f (get_node p n)"
proof (induction p arbitrary: n)
  case Nil
  show ?case by simp
next
  case (Cons k ks)
  show ?case
  proof (cases n)
    case (Group a cs)
    then show ?thesis using Cons
      by (simp add: map_of_map_entry split: option.splits)
  next
    case (Dataset a d)
    then show ?thesis by simp
  qed
qed

lemma attrs_set_root:
  "fmode f = ModeA \<Longrightarrow> root f = Group a cs \<Longrightarrow>
     attrs_set f [] k v = Inr (f\<lparr>root := Group (AList.update k v a) cs\<rparr>)"
  by (simp add: attrs_set_def)

lemma attrs_set_group:
  "fmode f = ModeA \<Longrightarrow> get_node p (root f) = Some (Group a cs) \<Longrightarrow>
     attrs_set f p k v = Inr (f\<lparr>root := map_node p (set_group_attr k v) (root f)\<rparr>)"
  by (simp add: attrs_set_def)

subsection \<open>Splitting a group name\<close>

lemma split_on_not_Nil: "split_on c s \<noteq> []"
  by (induction s) (auto split: list.splits)

lemma split_on_no_sep: "c \<notin> set w \<Longrightarrow> split_on c w = [w]"
  by (induction w) auto

lemma split_on_append_sep: "split_on c (xs @ c # ys) = split_on c xs @ split_on c ys"
proof (induction xs)
  case Nil
  show ?case by simp
next
  case (Cons x xs)
  then show ?case
    using split_on_not_Nil [of c xs] by (auto split: list.splits)
qed

lemma split_on_join_slash:
  "p \<noteq> [] \<Longrightarrow> \<forall>w \<in> set p. CHR ''/'' \<notin> set w \<Longrightarrow> split_on CHR ''/'' (join_slash p) = p"
proof (induction p rule: join_slash.induct)
  case 1
  then show ?case by simp
next
  case (2 x)
  then show ?case by (simp add: split_on_no_sep)
next
  case (3 x y zs)
  then show ?case by (simp add: split_on_append_sep split_on_no_sep)
qed

lemma split_on_hdf5_name:
  "p \<noteq> [] \<Longrightarrow> \<forall>w \<in> set p. CHR ''/'' \<notin> set w \<Longrightarrow> split_on CHR ''/'' (hdf5_name p) = [] # p"
  by (simp add: hdf5_name_def split_on_join_slash)

lemma py_index_minus2:
  "py_index (xs @ [a, b]) (- 2) = Inr a"
  by (simp add: py_index_def nth_append)

lemma parent_name_of_path:
  assumes "\<forall>w \<in> set (ps @ [par, leaf]). CHR ''/'' \<notin> set w"
  shows "py_index (split_on CHR ''/'' (hdf5_name (ps @ [par, leaf]))) (- 2) = Inr par"
proof -
  have "split_on CHR ''/'' (hdf5_name (ps @ [par, leaf])) = ([] # ps) @ [par, leaf]"
    using assms by (subst split_on_hdf5_name) auto
  then show ?thesis by (simp only: py_index_minus2)
qed

subsection \<open>The dataset name of a group\<close>

text \<open>
  Claim C4. For a group whose handle ends in \<open>par\<close>, \<open>leaf\<close> (so \<open>par\<close> is the name of its
  parent), an object of class \<^verbatim>\<open>fileEMD\<close> names the dataset \<^verbatim>\<open>data\<close>, and an object of
  class \<^verbatim>\<open>fileEMD_v05\<close> maps the parent name: \<^verbatim>\<open>datacubes\<close> to \<^verbatim>\<open>datacube\<close>,
  \<^verbatim>\<open>diffractionslices\<close> to \<^verbatim>\<open>diffractionslice\<close>, \<^verbatim>\<open>pointlistarrayss\<close> to \<^verbatim>\<open>pointlistarray\<close>,
  \<^verbatim>\<open>pointlists\<close> to \<^verbatim>\<open>pointlist\<close>, \<^verbatim>\<open>realslices\<close> to \<^verbatim>\<open>realslice\<close>, and raises
  \<^verbatim>\<open>ValueError('dset name not supported')\<close> for every other parent name.
\<close>

theorem dataset_name_layout_policy:
  assumes "\<forall>w \<in> set (ps @ [par, leaf]). CHR ''/'' \<notin> set w"
  shows "get_dset_string FileEMD (hdf5_name (ps @ [par, leaf])) = Inr ''data'' \<and>
         get_dset_string FileEMD_v05 (hdf5_name (ps @ [par, leaf])) =
           (if par = ''datacubes'' then Inr ''datacube''
            else if par = ''diffractionslices'' then Inr ''diffractionslice''
            else if par = ''pointlistarrayss'' then Inr ''pointlistarray''
            else if par = ''pointlists'' then Inr ''pointlist''
            else if par = ''realslices'' then Inr ''realslice''
            else Inl (ValueError ''dset name not supported''))"
  unfolding get_dset_string_def parent_name_of_path [OF assms] by simp

theorem dataset_name_layout_policy_witness:
  "get_dset_string FileEMD (hdf5_name [''4DSTEM'', ''datacubes'', ''cube0'']) = Inr ''data'' \<and>
   get_dset_string FileEMD_v05 (hdf5_name [''4DSTEM'', ''datacubes'', ''cube0'']) = Inr ''datacube''"
  using dataset_name_layout_policy [of "[''4DSTEM'']" "''datacubes''" "''cube0''"] by simp

subsection \<open>Default dims\<close>

lemma curDim_replicate:
  "ii < n \<Longrightarrow> curDim a (replicate n 1) ii =
     (\<lparr>shape = [shape a ! ii], elems = map real [0..<shape a ! ii]\<rparr>,
      ''dim'' @ str_nat (ii + 1), ''unit'' @ str_nat (ii + 1))"
  by (simp add: curDim_def times_scalar_def linspace0_def)

lemma curDim_eq:
  "curDim a ps ii =
     (\<lparr>shape = [shape a ! ii], elems = map (\<lambda>k. real k * ps ! ii) [0..<shape a ! ii]\<rparr>,
      ''dim'' @ str_nat (ii + 1), ''unit'' @ str_nat (ii + 1))"
  by (simp add: curDim_def times_scalar_def linspace0_def)

text \<open>
  Claim C8, as the code has it. \<^verbatim>\<open>defaultDims\<close> refuses a numpy array as \<^verbatim>\<open>pixel_size\<close>;
  a non-empty sequence whose length is not the rank of the array raises \<^verbatim>\<open>ValueError\<close>;
  a non-empty sequence of the right length gives, for every axis \<open>i\<close>, the values
  \<open>0, 1, ..., shape[i] - 1\<close> each multiplied by \<open>pixel_size[i]\<close>, the name \<^verbatim>\<open>dim{i+1}\<close> and the
  units \<^verbatim>\<open>unit{i+1}\<close>; an omitted \<^verbatim>\<open>pixel_size\<close> gives the same with factor 1; and an
  empty sequence is treated as an omitted one, whatever the rank.
\<close>

theorem defaultDims_per_axis:
  "defaultDims a (PNdarray ps) = Inl (Exception ''pixel_size must be a tuple'') \<and>
   (ps \<noteq> [] \<and> length ps \<noteq> ndim a \<longrightarrow>
      defaultDims a (PSeq ps) = Inl (ValueError ''pixel_size and data dimensions must match'')) \<and>
   (ps \<noteq> [] \<and> length ps = ndim a \<longrightarrow>
      defaultDims a (PSeq ps) =
        Inr (map (\<lambda>i. (\<lparr>shape = [shape a ! i],
                          elems = map (\<lambda>k. real k * ps ! i) [0..<shape a ! i]\<rparr>,
                        ''dim'' @ str_nat (i + 1), ''unit'' @ str_nat (i + 1)))
               [0..<ndim a])) \<and>
   defaultDims a PNone =
     Inr (map (\<lambda>i. (\<lparr>shape = [shape a ! i], elems = map real [0..<shape a ! i]\<rparr>,
                     ''dim'' @ str_nat (i + 1), ''unit'' @ str_nat (i + 1)))
            [0..<ndim a]) \<and>
   defaultDims a (PSeq []) = defaultDims a PNone"
proof -
  have 1: "defaultDims a (PNdarray ps) = Inl (Exception ''pixel_size must be a tuple'')"
    by (simp add: defaultDims_def)
  have 2: "ps \<noteq> [] \<and> length ps \<noteq> ndim a \<longrightarrow>
      defaultDims a (PSeq ps) = Inl (ValueError ''pixel_size and data dimensions must match'')"
    by (simp add: defaultDims_def Let_def)
  have 3: "ps \<noteq> [] \<and> length ps = ndim a \<longrightarrow>
      defaultDims a (PSeq ps) =
        Inr (map (\<lambda>i. (\<lparr>shape = [shape a ! i],
                          elems = map (\<lambda>k. real k * ps ! i) [0..<shape a ! i]\<rparr>,
                        ''dim'' @ str_nat (i + 1), ''unit'' @ str_nat (i + 1)))
               [0..<ndim a])"
    by (simp add: defaultDims_def Let_def curDim_eq)
  have 4: "defaultDims a PNone =
     Inr (map (\<lambda>i. (\<lparr>shape = [shape a ! i], elems = map real [0..<shape a ! i]\<rparr>,
                     ''dim'' @ str_nat (i + 1), ''unit'' @ str_nat (i + 1)))
            [0..<ndim a])"
    by (simp add: defaultDims_def Let_def curDim_replicate)
  have 5: "defaultDims a (PSeq []) = defaultDims a PNone"
    by (simp add: defaultDims_def Let_def)
  from 1 2 3 4 5 show ?thesis by blast
qed

theorem defaultDims_per_axis_witness:
  "defaultDims \<lparr>shape = [2, 3], elems = [0, 0, 0, 0, 0, 0]\<rparr> (PSeq [1 / 2, 2]) =
     Inr [(\<lparr>shape = [2], elems = [0, 1 / 2]\<rparr>, ''dim1'', ''unit1''),
          (\<lparr>shape = [3], elems = [0, 2, 4]\<rparr>, ''dim2'', ''unit2'')] \<and>
   defaultDims \<lparr>shape = [2, 3], elems = [0, 0, 0, 0, 0, 0]\<rparr> (PSeq [1]) =
     Inl (ValueError ''pixel_size and data dimensions must match'')"
  using defaultDims_per_axis [of "\<lparr>shape = [2, 3], elems = [0, 0, 0, 0, 0, 0]\<rparr>" "[1 / 2, 2]" ]
    defaultDims_per_axis [of "\<lparr>shape = [2, 3], elems = [0, 0, 0, 0, 0, 0]\<rparr>" "[1]" ]
  by (simp add: ndim_def upt_conv_Cons str_nat.simps digit_char_def)

text \<open>
  Claim C8 as stated asks for the error whenever the length of \<^verbatim>\<open>pixel_size\<close> differs from
  the rank. The empty tuple has length 0, the array below has rank 1, and the call returns
  the default dims.
\<close>

theorem defaultDims_empty_pixel_size_counterexample:
  "length ([] :: real list) \<noteq> ndim \<lparr>shape = [2], elems = [0, 0]\<rparr> \<and>
   defaultDims \<lparr>shape = [2], elems = [0, 0]\<rparr> (PSeq []) =
     Inr [(\<lparr>shape = [2], elems = [0, 1]\<rparr>, ''dim1'', ''unit1'')]"
  by (simp add: defaultDims_def ndim_def Let_def curDim_def times_scalar_def linspace0_def
      upt_conv_Cons str_nat.simps digit_char_def)

subsection \<open>The check of the dims before writing\<close>

lemma dims_ok_iff:
  "dims_ok D A \<longleftrightarrow>
     length D = length (shape A) \<and>
     (\<forall>i<length D. shape (fst (D ! i)) \<noteq> [] \<and> hd (shape (fst (D ! i))) = shape A ! i)"
  by (auto simp: dims_ok_def list_all_iff)

text \<open>
  Claim C2. When the number of dims is not the rank of the array, or the first extent of
  some dim vector is not the extent of its axis (or the vector has no axis at all),
  \<^verbatim>\<open>put_emdgroup\<close> raises \<^verbatim>\<open>TypeError('Something wrong with the provided dims')\<close> and the
  object, with its file, is as before the call.
\<close>

theorem put_emdgroup_shape_mismatch:
  assumes "length D \<noteq> length (shape A) \<or>
           (\<exists>i<length D. shape (fst (D ! i)) = [] \<or> hd (shape (fst (D ! i))) \<noteq> shape A ! i)"
  shows "put_emdgroup self (Str label) (Ndarray A) D parent overwrite =
           (Inl (TypeError ''Something wrong with the provided dims''), self)"
proof -
  from assms have "\<not> dims_ok D A" by (auto simp: dims_ok_iff)
  then show ?thesis by (simp add: put_emdgroup_def)
qed

theorem put_emdgroup_shape_mismatch_witness:
  "put_emdgroup
     \<lparr>cls = FileEMD, filename = FStr ''f.emd'', readonly = False,
      file_hdl = \<lparr>root = Group [] [(''data'', Group [] [])], fmode = ModeA\<rparr>, version = None,
      data = Some [''data''], microscope = None, sample = None, user = None, comments = None,
      list_emds = [], stdout = []\<rparr>
     (Str ''x'') (Ndarray \<lparr>shape = [2], elems = [5, 6]\<rparr>)
     [(\<lparr>shape = [3], elems = [0, 1, 2]\<rparr>, ''dim1'', ''unit1'')] None False =
   (Inl (TypeError ''Something wrong with the provided dims''),
    \<lparr>cls = FileEMD, filename = FStr ''f.emd'', readonly = False,
      file_hdl = \<lparr>root = Group [] [(''data'', Group [] [])], fmode = ModeA\<rparr>, version = None,
      data = Some [''data''], microscope = None, sample = None, user = None, comments = None,
      list_emds = [], stdout = []\<rparr>)"
  by (rule put_emdgroup_shape_mismatch) simp

subsection \<open>Discovery\<close>

lemma proc_group_preorder:
  "proc_group p g emds = emds @ map fst (filter (emd_typed \<circ> snd) (preorder_groups p g))"
  "proc_items p cs emds = emds @ map fst (filter (emd_typed \<circ> snd) (preorder_children p cs))"
proof (induction p g emds and p cs emds rule: proc_group_proc_items.induct)
  case (1 p a cs emds)
  then show ?case by simp
next
  case (2 p a d emds)
  show ?case by simp
next
  case (3 p emds)
  show ?case by simp
next
  case (4 p item c rest emds)
  show ?case
  proof (cases c)
    case (Group a cs)
    then show ?thesis using 4 by simp
  next
    case (Dataset a d)
    then show ?thesis using 4 by simp
  qed
qed

lemma wf_children_map_of:
  "wf_children cs \<Longrightarrow> (k, c) \<in> set cs \<Longrightarrow> map_of cs k = Some c"
  by (induction cs) (auto simp: weak_map_of_SomeI)

lemma preorder_sound:
  "wf_node g \<Longrightarrow> (q, n) \<in> set (preorder_groups p g) \<Longrightarrow>
     \<exists>r. r \<noteq> [] \<and> q = p @ r \<and> get_node r g = Some n \<and> is_group n"
  "wf_children cs \<Longrightarrow> (q, n) \<in> set (preorder_children p cs) \<Longrightarrow>
     \<exists>r. r \<noteq> [] \<and> q = p @ r \<and> get_node r (Group a0 cs) = Some n \<and> is_group n"
proof (induction p g and p cs arbitrary: q n and q n a0 rule: preorder_groups_preorder_children.induct)
  case (1 p a cs)
  then show ?case by simp
next
  case (2 p a d)
  then show ?case by simp
next
  case (3 p)
  then show ?case by simp
next
  case (4 p k c rest)
  from "4.prems" have wfc: "wf_node c" and wfr: "wf_children rest" and fresh: "map_of rest k = None"
    by auto
  from "4.prems"(2) consider
      (here) "is_group c" "q = p @ [k]" "n = c"
    | (below) "is_group c" "(q, n) \<in> set (preorder_groups (p @ [k]) c)"
    | (later) "(q, n) \<in> set (preorder_children p rest)"
    by (auto split: if_splits)
  then show ?case
  proof cases
    case here
    then show ?thesis by (intro exI [of _ "[k]"]) simp
  next
    case below
    from "4.IH"(1) [OF below(1) wfc below(2)]
    obtain r where r: "r \<noteq> []" "q = (p @ [k]) @ r" "get_node r c = Some n" "is_group n"
      by blast
    then show ?thesis by (intro exI [of _ "k # r"]) simp
  next
    case later
    from "4.IH"(2) [OF wfr later, of a0]
    obtain r where r: "r \<noteq> []" "q = p @ r" "get_node r (Group a0 rest) = Some n" "is_group n"
      by blast
    from r(1) obtain k' r' where kr: "r = k' # r'" by (cases r) auto
    with r(3) have "map_of rest k' \<noteq> None" by (auto split: option.splits)
    with fresh have "k' \<noteq> k" by auto
    with r kr show ?thesis by (intro exI [of _ r]) simp
  qed
qed

lemma preorder_complete:
  "r \<noteq> [] \<Longrightarrow> get_node r g = Some n \<Longrightarrow> is_group n \<Longrightarrow> (p @ r, n) \<in> set (preorder_groups p g)"
  "r \<noteq> [] \<Longrightarrow> get_node r (Group a0 cs) = Some n \<Longrightarrow> is_group n \<Longrightarrow>
     (p @ r, n) \<in> set (preorder_children p cs)"
proof (induction p g and p cs arbitrary: r n and r n a0 rule: preorder_groups_preorder_children.induct)
  case (1 p a cs)
  then show ?case by simp
next
  case (2 p a d)
  then show ?case by (cases r) auto
next
  case (3 p)
  then show ?case by (cases r) auto
next
  case (4 p k c rest)
  from "4.prems"(1) obtain k' r' where kr: "r = k' # r'" by (cases r) auto
  show ?case
  proof (cases "k' = k")
    case True
    with kr "4.prems" have g: "get_node r' c = Some n" by simp
    show ?thesis
    proof (cases "r' = []")
      case True
      with g "4.prems"(3) kr \<open>k' = k\<close> show ?thesis by simp
    next
      case False
      have "is_group c" using g False by (cases c; cases r') auto
      from "4.IH"(1) [OF this False g "4.prems"(3)] this kr \<open>k' = k\<close>
      show ?thesis by simp
    qed
  next
    case False
    with kr "4.prems" have "get_node r (Group a0 rest) = Some n" by simp
    from "4.IH"(2) [OF "4.prems"(1) this "4.prems"(3)] show ?thesis by simp
  qed
qed

lemma preorder_prefix:
  "(q, n) \<in> set (preorder_groups p g) \<Longrightarrow> strict_prefix p q"
  "(q, n) \<in> set (preorder_children p cs) \<Longrightarrow> \<exists>k r. q = p @ k # r \<and> map_of cs k \<noteq> None"
proof (induction p g and p cs arbitrary: q n and q n rule: preorder_groups_preorder_children.induct)
  case (1 p a cs)
  then obtain k r where "q = p @ k # r" by fastforce
  then show ?case by (simp add: strict_prefix_def)
next
  case (2 p a d)
  then show ?case by simp
next
  case (3 p)
  then show ?case by simp
next
  case (4 p k c rest)
  from "4.prems" consider
      (here) "is_group c" "q = p @ [k]"
    | (below) "is_group c" "(q, n) \<in> set (preorder_groups (p @ [k]) c)"
    | (later) "(q, n) \<in> set (preorder_children p rest)"
    by (auto split: if_splits)
  then show ?case
  proof cases
    case here
    then show ?thesis by auto
  next
    case below
    from "4.IH"(1) [OF below] obtain r where "q = (p @ [k]) @ r"
      by (auto simp: strict_prefix_def prefix_def)
    then show ?thesis by auto
  next
    case later
    from "4.IH"(2) [OF later] show ?thesis by auto
  qed
qed

lemma preorder_groups_form:
  "(q, n) \<in> set (preorder_groups (p @ [k]) c) \<Longrightarrow> \<exists>r. q = p @ k # r \<and> r \<noteq> []"
  using preorder_prefix(1) [of q n "p @ [k]" c]
  by (auto simp: strict_prefix_def prefix_def)

lemma preorder_distinct:
  "wf_node g \<Longrightarrow> distinct (map fst (preorder_groups p g))"
  "wf_children cs \<Longrightarrow> distinct (map fst (preorder_children p cs))"
proof (induction p g and p cs rule: preorder_groups_preorder_children.induct)
  case (1 p a cs)
  then show ?case by simp
next
  case (2 p a d)
  show ?case by simp
next
  case (3 p)
  show ?case by simp
next
  case (4 p k c rest)
  from "4.prems" have wfc: "wf_node c" and wfr: "wf_children rest" and fresh: "map_of rest k = None"
    by auto
  have later: "q \<in> fst ` set (preorder_children p rest) \<Longrightarrow> \<exists>k' r. q = p @ k' # r \<and> k' \<noteq> k" for q
    using preorder_prefix(2) [of q _ p rest] fresh by fastforce
  have below: "q \<in> fst ` set (preorder_groups (p @ [k]) c) \<Longrightarrow> \<exists>r. q = p @ k # r \<and> r \<noteq> []" for q
    using preorder_groups_form [of q _ p k c] by fastforce
  have d2: "distinct (map fst (preorder_children p rest))" using "4.IH"(2) wfr by simp
  show ?case
  proof (cases "is_group c")
    case False
    then show ?thesis using d2 by simp
  next
    case True
    have d1: "distinct (map fst (preorder_groups (p @ [k]) c))" using "4.IH"(1) True wfc by simp
    have a: "p @ [k] \<notin> fst ` set (preorder_groups (p @ [k]) c)" using below by fastforce
    have b: "p @ [k] \<notin> fst ` set (preorder_children p rest)" using later by fastforce
    have c: "fst ` set (preorder_groups (p @ [k]) c) \<inter> fst ` set (preorder_children p rest) = {}"
    proof (rule ccontr)
      assume "\<not> ?thesis"
      then obtain q where q1: "q \<in> fst ` set (preorder_groups (p @ [k]) c)"
        and q2: "q \<in> fst ` set (preorder_children p rest)" by blast
      from below [OF q1] later [OF q2] show False by auto
    qed
    from True d1 d2 a b c show ?thesis by simp
  qed
qed

lemma preorder_ancestors_first:
  "wf_node g \<Longrightarrow> sorted_wrt (\<lambda>q q'. \<not> strict_prefix q' q) (map fst (preorder_groups p g))"
  "wf_children cs \<Longrightarrow> sorted_wrt (\<lambda>q q'. \<not> strict_prefix q' q) (map fst (preorder_children p cs))"
proof (induction p g and p cs rule: preorder_groups_preorder_children.induct)
  case (1 p a cs)
  then show ?case by simp
next
  case (2 p a d)
  show ?case by simp
next
  case (3 p)
  show ?case by simp
next
  case (4 p k c rest)
  from "4.prems" have wfc: "wf_node c" and wfr: "wf_children rest" and fresh: "map_of rest k = None"
    by auto
  have later: "q \<in> fst ` set (preorder_children p rest) \<Longrightarrow> \<exists>k' r. q = p @ k' # r \<and> k' \<noteq> k" for q
    using preorder_prefix(2) [of q _ p rest] fresh by fastforce
  have below: "q \<in> fst ` set (preorder_groups (p @ [k]) c) \<Longrightarrow> \<exists>r. q = p @ k # r \<and> r \<noteq> []" for q
    using preorder_groups_form [of q _ p k c] by fastforce
  have s2: "sorted_wrt (\<lambda>q q'. \<not> strict_prefix q' q) (map fst (preorder_children p rest))"
    using "4.IH"(2) wfr by simp
  show ?case
  proof (cases "is_group c")
    case False
    then show ?thesis using s2 by simp
  next
    case True
    have s1: "sorted_wrt (\<lambda>q q'. \<not> strict_prefix q' q) (map fst (preorder_groups (p @ [k]) c))"
      using "4.IH"(1) True wfc by simp
    have a: "\<not> strict_prefix q' (p @ [k])" if "q' \<in> fst ` set (preorder_groups (p @ [k]) c)" for q'
      using below [OF that] by (auto simp: strict_prefix_def prefix_def)
    have b: "\<not> strict_prefix q' (p @ [k])" if "q' \<in> fst ` set (preorder_children p rest)" for q'
      using later [OF that] by (auto simp: strict_prefix_def prefix_def)
    have c: "\<not> strict_prefix q' q" if "q \<in> fst ` set (preorder_groups (p @ [k]) c)"
      and "q' \<in> fst ` set (preorder_children p rest)" for q q'
      using below [OF that(1)] later [OF that(2)]
      by (auto simp: strict_prefix_def prefix_def append_eq_append_conv2 Cons_eq_append_conv)
    from True s1 s2 a b c show ?thesis
      by (auto simp: sorted_wrt_append)
  qed
qed

lemma emd_typed_is_group: "emd_typed n \<Longrightarrow> is_group n"
  by (cases n) auto

lemma find_emdgroups_root:
  "find_emdgroups f [] = map fst (filter (emd_typed \<circ> snd) (preorder_groups [] (root f)))"
  by (simp add: find_emdgroups_def proc_group_preorder(1))

text \<open>
  Claim C3, as the code has it. In a store with unique child names, \<^verbatim>\<open>find_emdgroups\<close>
  applied to the root returns the groups strictly below the root that carry
  \<^verbatim>\<open>emd_group_type\<close> with value 1, at every depth from 1 on: it is the depth-first pre-order
  of all groups below the root, filtered by that test; its members are exactly the handles
  of the qualifying groups below the root; no handle appears twice; and no group appears
  after a group inside it. The root itself is never tested.
\<close>

theorem find_emdgroups_preorder:
  assumes "wf_node (root f)"
  shows "find_emdgroups f [] = map fst (filter (emd_typed \<circ> snd) (preorder_groups [] (root f))) \<and>
         set (find_emdgroups f []) =
           {q. q \<noteq> [] \<and> (\<exists>n. get_node q (root f) = Some n \<and> emd_typed n)} \<and>
         distinct (find_emdgroups f []) \<and>
         sorted_wrt (\<lambda>q q'. \<not> strict_prefix q' q) (find_emdgroups f [])"
proof -
  let ?all = "preorder_groups [] (root f)"
  have eq: "find_emdgroups f [] = map fst (filter (emd_typed \<circ> snd) ?all)"
    by (rule find_emdgroups_root)
  have mem: "set (find_emdgroups f []) =
           {q. q \<noteq> [] \<and> (\<exists>n. get_node q (root f) = Some n \<and> emd_typed n)}"
  proof (intro set_eqI iffI)
    fix q assume "q \<in> set (find_emdgroups f [])"
    then obtain n where n: "(q, n) \<in> set ?all" "emd_typed n" by (auto simp: eq)
    from preorder_sound(1) [OF assms n(1)] n(2)
    show "q \<in> {q. q \<noteq> [] \<and> (\<exists>n. get_node q (root f) = Some n \<and> emd_typed n)}" by auto
  next
    fix q assume "q \<in> {q. q \<noteq> [] \<and> (\<exists>n. get_node q (root f) = Some n \<and> emd_typed n)}"
    then obtain n where n: "q \<noteq> []" "get_node q (root f) = Some n" "emd_typed n" by auto
    from preorder_complete(1) [OF n(1) n(2) emd_typed_is_group [OF n(3)], of "[]"]
    have "(q, n) \<in> set ?all" by simp
    with n(3) show "q \<in> set (find_emdgroups f [])" by (force simp: eq)
  qed
  have "distinct (map fst ?all)" by (rule preorder_distinct(1) [OF assms])
  then have dist: "distinct (find_emdgroups f [])"
    unfolding eq by (simp add: distinct_map_filter)
  have "sorted_wrt (\<lambda>q q'. \<not> strict_prefix q' q) (map fst ?all)"
    by (rule preorder_ancestors_first(1) [OF assms])
  then have srt: "sorted_wrt (\<lambda>q q'. \<not> strict_prefix q' q) (find_emdgroups f [])"
    unfolding eq sorted_wrt_map by (rule sorted_wrt_filter)
  from eq mem dist srt show ?thesis by (intro conjI)
qed

theorem find_emdgroups_preorder_witness:
  "find_emdgroups
     \<lparr>root = Group []
        [(''data'', Group []
           [(''x'', Group [(''emd_group_type'', SInt 1)]
              [(''data'', Dataset [] \<lparr>shape = [1], elems = [7]\<rparr>),
               (''inner'', Group [] [(''y'', Group [(''emd_group_type'', SInt 1)] [])])]),
            (''z'', Group [(''emd_group_type'', SInt 2)] [])]),
         (''w'', Group [(''emd_group_type'', SInt 1)] [])],
      fmode = ModeR\<rparr> [] =
     [[''data'', ''x''], [''data'', ''x'', ''inner'', ''y''], [''w'']] \<and>
   distinct (find_emdgroups
     \<lparr>root = Group []
        [(''data'', Group []
           [(''x'', Group [(''emd_group_type'', SInt 1)]
              [(''data'', Dataset [] \<lparr>shape = [1], elems = [7]\<rparr>),
               (''inner'', Group [] [(''y'', Group [(''emd_group_type'', SInt 1)] [])])]),
            (''z'', Group [(''emd_group_type'', SInt 2)] [])]),
         (''w'', Group [(''emd_group_type'', SInt 1)] [])],
      fmode = ModeR\<rparr> [])"
  using find_emdgroups_preorder [of "\<lparr>root = Group []
        [(''data'', Group []
           [(''x'', Group [(''emd_group_type'', SInt 1)]
              [(''data'', Dataset [] \<lparr>shape = [1], elems = [7]\<rparr>),
               (''inner'', Group [] [(''y'', Group [(''emd_group_type'', SInt 1)] [])])]),
            (''z'', Group [(''emd_group_type'', SInt 2)] [])]),
         (''w'', Group [(''emd_group_type'', SInt 1)] [])],
      fmode = ModeR\<rparr>"]
  by (simp add: find_emdgroups_def)

text \<open>
  Claim C3 as stated includes depth 0. Here the root carries \<^verbatim>\<open>emd_group_type = 1\<close>, and
  the result holds its child only.
\<close>

theorem find_emdgroups_root_counterexample:
  "emd_typed (Group [(''emd_group_type'', SInt 1)] [(''a'', Group [(''emd_group_type'', SInt 1)] [])]) \<and>
   find_emdgroups
     \<lparr>root = Group [(''emd_group_type'', SInt 1)] [(''a'', Group [(''emd_group_type'', SInt 1)] [])],
      fmode = ModeR\<rparr> [] = [[''a'']]"
  by (simp add: find_emdgroups_def)

subsection \<open>Version resolution\<close>

text \<open>
  Claim C6. On an object built by \<^verbatim>\<open>__init__\<close> (read-only exactly when the file is),
  \<^verbatim>\<open>fileEMD.check_version\<close> returns without an exception. When the file is writable and
  does not have both version attributes, they are set to 0 and 2 and nothing is printed;
  reading them afterwards gives (0, 2). When both are present the file is left alone, the
  version is recorded in the object, and a warning is printed exactly when it is not (0, 2).
\<close>

theorem check_version_defaults:
  assumes grp: "root (file_hdl self) = Group a cs"
    and agree: "mode_agrees self"
    and base: "cls self = FileEMD"
  shows "\<exists>self'. check_version self = Inr self' \<and>
           (\<not> has_version self \<and> \<not> readonly self \<longrightarrow>
              self' = self\<lparr>file_hdl := (file_hdl self)\<lparr>root :=
                        Group (AList.update ''version_minor'' (SInt 2)
                                 (AList.update ''version_major'' (SInt 0) a)) cs\<rparr>\<rparr> \<and>
              has_version self' \<and> read_version self' = (SInt 0, SInt 2)) \<and>
           (\<not> has_version self \<and> readonly self \<longrightarrow> self' = self) \<and>
           (has_version self \<longrightarrow>
              file_hdl self' = file_hdl self \<and>
              version self' = Some (read_version self) \<and>
              stdout self' =
                (if read_version self = (SInt 0, SInt 2) then stdout self
                 else stdout self @
                        [WarnVersion02 (fst (read_version self)) (snd (read_version self))]))"
proof (cases "has_version self")
  case True
  then show ?thesis using base
    by (simp add: check_version_def check_version_v02_def Let_def print_def)
next
  case False
  show ?thesis
  proof (cases "readonly self")
    case True
    with False show ?thesis using base
      by (simp add: check_version_def check_version_v02_def)
  next
    case ro: False
    with agree have m: "fmode (file_hdl self) = ModeA"
      by (cases "fmode (file_hdl self)") (auto simp: mode_agrees_def)
    let ?f1 = "(file_hdl self)\<lparr>root := Group (AList.update ''version_major'' (SInt 0) a) cs\<rparr>"
    let ?f2 = "(file_hdl self)\<lparr>root := Group (AList.update ''version_minor'' (SInt 2)
                                 (AList.update ''version_major'' (SInt 0) a)) cs\<rparr>"
    have s1: "attrs_set (file_hdl self) [] ''version_major'' (SInt 0) = Inr ?f1"
      using m grp by (simp add: attrs_set_root)
    have s2: "attrs_set ?f1 [] ''version_minor'' (SInt 2) = Inr ?f2"
      using m by (simp add: attrs_set_root)
    have cv: "check_version self = Inr (self\<lparr>file_hdl := ?f2\<rparr>)"
      using False ro base s1 s2 by (simp add: check_version_def check_version_v02_def)
    have hv: "has_version (self\<lparr>file_hdl := ?f2\<rparr>)"
      by (simp add: has_version_def update_conv')
    have rv: "read_version (self\<lparr>file_hdl := ?f2\<rparr>) = (SInt 0, SInt 2)"
      by (simp add: read_version_def update_conv')
    from cv hv rv False ro show ?thesis by simp
  qed
qed

theorem check_version_defaults_witness:
  "check_version
     \<lparr>cls = FileEMD, filename = FStr ''new.emd'', readonly = False,
      file_hdl = \<lparr>root = Group [] [], fmode = ModeA\<rparr>, version = None,
      data = None, microscope = None, sample = None, user = None, comments = None,
      list_emds = [], stdout = []\<rparr> =
   Inr \<lparr>cls = FileEMD, filename = FStr ''new.emd'', readonly = False,
      file_hdl = \<lparr>root = Group [(''version_major'', SInt 0), (''version_minor'', SInt 2)] [], fmode = ModeA\<rparr>, version = None,
      data = None, microscope = None, sample = None, user = None, comments = None,
      list_emds = [], stdout = []\<rparr> \<and>
   check_version
     \<lparr>cls = FileEMD, filename = FStr ''old.emd'', readonly = True,
      file_hdl = \<lparr>root = Group [(''version_major'', SInt 0), (''version_minor'', SInt 5)] [], fmode = ModeR\<rparr>, version = None,
      data = None, microscope = None, sample = None, user = None, comments = None,
      list_emds = [], stdout = []\<rparr> =
   Inr \<lparr>cls = FileEMD, filename = FStr ''old.emd'', readonly = True,
      file_hdl = \<lparr>root = Group [(''version_major'', SInt 0), (''version_minor'', SInt 5)] [], fmode = ModeR\<rparr>, version = Some (SInt 0, SInt 5),
      data = None, microscope = None, sample = None, user = None, comments = None,
      list_emds = [], stdout = [WarnVersion02 (SInt 0) (SInt 5)]\<rparr>"
  using check_version_defaults [of "\<lparr>cls = FileEMD, filename = FStr ''new.emd'', readonly = False,
      file_hdl = \<lparr>root = Group [] [], fmode = ModeA\<rparr>, version = None,
      data = None, microscope = None, sample = None, user = None, comments = None,
      list_emds = [], stdout = []\<rparr>" "[]" "[]"]
    check_version_defaults [of "\<lparr>cls = FileEMD, filename = FStr ''old.emd'', readonly = True,
      file_hdl = \<lparr>root = Group [(''version_major'', SInt 0), (''version_minor'', SInt 5)] [], fmode = ModeR\<rparr>, version = None,
      data = None, microscope = None, sample = None, user = None, comments = None,
      list_emds = [], stdout = []\<rparr>"
      "[(''version_major'', SInt 0), (''version_minor'', SInt 5)]" "[]"]
  by (simp add: mode_agrees_def has_version_def read_version_def check_version_def
      check_version_v02_def print_def)

subsection \<open>Construction of a fileEMD\_v05\<close>

lemma init_group_readonly:
  "init_group f True name = Inr (f', h) \<Longrightarrow> f' = f"
  by (auto simp: init_group_def split: sum.splits if_splits)

lemma check_version_v05_file:
  "check_version_v05 self = Inr self' \<Longrightarrow>
     file_hdl self' = file_hdl self \<and> readonly self' = readonly self \<and> cls self' = cls self"
  by (auto simp: check_version_v05_def Let_def print_def split: if_splits)

lemma h5py_File_ModeR:
  "h5py_File fs s ModeR = Inr f \<Longrightarrow> fmode f = ModeR \<and> fs s = Hdf5 (root f)"
  by (auto simp: h5py_File_def split: fs_entry.splits)

text \<open>
  Claim C10. Whatever further positional and keyword arguments the caller passes, an
  object that \<^verbatim>\<open>fileEMD_v05.__init__\<close> builds is the one the base constructor builds with
  \<^verbatim>\<open>readonly=True\<close>: it is read-only, its file is opened with mode \<^verbatim>\<open>'r'\<close>, and the tree
  of the file is the one found under the file name, nothing was created in it.
\<close>

theorem fileEMD_v05_init_readonly:
  assumes "fileEMD_v05_init fs fname args kwargs = Inr self"
  shows "fileEMD_init FileEMD_v05 fs fname True = Inr self \<and>
         readonly self \<and> fmode (file_hdl self) = ModeR \<and> cls self = FileEMD_v05 \<and>
         (\<exists>s. (fname = FStr s \<or> fname = FPath s) \<and> fs s = Hdf5 (root (file_hdl self)))"
proof -
  from assms obtain s where s: "fname = FStr s \<or> fname = FPath s"
    by (cases fname) (auto simp: fileEMD_v05_init_def fileEMD_init_def)
  then have nm: "(case fname of FStr s \<Rightarrow> Some s | FPath s \<Rightarrow> Some s | FOther \<Rightarrow> None) = Some s"
    by auto
  from assms obtain f where f: "h5py_File fs s ModeR = Inr f"
    unfolding fileEMD_v05_init_def fileEMD_init_def nm
    by (auto split: sum.splits)
  let ?self0 = "\<lparr>cls = FileEMD_v05, filename = fname, readonly = True, file_hdl = f, version = None,
              data = None, microscope = None, sample = None, user = None, comments = None,
              list_emds = [], stdout = []\<rparr>"
  from assms f obtain self1 where s1: "check_version ?self0 = Inr self1"
    unfolding fileEMD_v05_init_def fileEMD_init_def nm
    by (auto split: sum.splits)
  then have "check_version_v05 ?self0 = Inr self1" by (simp add: check_version_def)
  from check_version_v05_file [OF this]
  have k1: "file_hdl self1 = f" "readonly self1" "cls self1 = FileEMD_v05" by simp_all
  from assms f s1 obtain f1 h1 f2 h2 f3 h3 f4 h4 f5 h5 where
    g: "init_group (file_hdl self1) True ''data'' = Inr (f1, h1)"
       "init_group f1 True ''microscope'' = Inr (f2, h2)"
       "init_group f2 True ''sample'' = Inr (f3, h3)"
       "init_group f3 True ''user'' = Inr (f4, h4)"
       "init_group f4 True ''comments'' = Inr (f5, h5)"
    and r: "self = self1\<lparr>file_hdl := f5, data := h1, microscope := h2, sample := h3,
                     user := h4, comments := h5, list_emds := find_emdgroups f5 []\<rparr>"
    unfolding fileEMD_v05_init_def fileEMD_init_def nm
    by (auto split: sum.splits)
  from g k1 have "f5 = f"
    by (auto dest!: init_group_readonly)
  moreover have "fileEMD_init FileEMD_v05 fs fname True = Inr self"
    using assms by (simp add: fileEMD_v05_init_def)
  ultimately show ?thesis using r k1 h5py_File_ModeR [OF f] s by auto
qed

theorem fileEMD_v05_init_readonly_witness:
  "fileEMD_v05_init (\<lambda>n. if n = ''old.emd'' then Hdf5 (Group [] []) else Absent)
      (FStr ''old.emd'') [PyBool False] [(''readonly'', PyBool False)] =
     Inr \<lparr>cls = FileEMD_v05, filename = FStr ''old.emd'', readonly = True,
          file_hdl = \<lparr>root = Group [] [], fmode = ModeR\<rparr>, version = None,
          data = None, microscope = None, sample = None, user = None, comments = None,
          list_emds = [], stdout = []\<rparr> \<and>
   readonly \<lparr>cls = FileEMD_v05, filename = FStr ''old.emd'', readonly = True,
          file_hdl = \<lparr>root = Group [] [], fmode = ModeR\<rparr>, version = None,
          data = None, microscope = None, sample = None, user = None, comments = None,
          list_emds = [], stdout = []\<rparr>"
proof -
  have e: "fileEMD_v05_init (\<lambda>n. if n = ''old.emd'' then Hdf5 (Group [] []) else Absent)
      (FStr ''old.emd'') [PyBool False] [(''readonly'', PyBool False)] =
     Inr \<lparr>cls = FileEMD_v05, filename = FStr ''old.emd'', readonly = True,
          file_hdl = \<lparr>root = Group [] [], fmode = ModeR\<rparr>, version = None,
          data = None, microscope = None, sample = None, user = None, comments = None,
          list_emds = [], stdout = []\<rparr>"
    by (simp add: fileEMD_v05_init_def fileEMD_init_def h5py_File_def check_version_def
        check_version_v05_def has_version_def init_group_def h5_contains_def find_emdgroups_def)
  from fileEMD_v05_init_readonly [OF e] e show ?thesis by blast
qed

subsection \<open>Comments\<close>



lemma map_of_fresh_append:
  "map_of al k = None \<Longrightarrow> map_of (al @ [(k, v)]) k = Some v"
  by (induction al) (auto split: if_splits)






subsection \<open>Reading a group\<close>








subsection \<open>Writing a group\<close>

lemma get_node_map_node_below:
  "get_node p (map_node (p @ q) f n) = map_option (map_node q f) (get_node p n)"
proof (induction p arbitrary: n)
  case Nil
  show ?case by simp
next
  case (Cons k ks)
  show ?case
  proof (cases n)
    case (Group a cs)
    then show ?thesis using Cons
      by (simp add: map_of_map_entry split: option.splits)
  next
    case (Dataset a d)
    then show ?thesis by simp
  qed
qed

lemma map_entry_last:
  "map_of al k = None \<Longrightarrow> AList.map_entry k f (al @ [(k, c)]) = al @ [(k, f c)]"
  by (induction al) (auto split: if_splits)

lemma get_node_last_child:
  "get_node t n = Some (Group a (cs @ [(label, c)])) \<Longrightarrow> map_of cs label = None \<Longrightarrow>
     get_node (t @ [label]) n = Some c"
  by (simp add: get_node_append map_add_def)

lemma get_node_map_last_child:
  "get_node t n = Some (Group a (cs @ [(label, c)])) \<Longrightarrow> map_of cs label = None \<Longrightarrow>
     get_node t (map_node (t @ [label]) f n) = Some (Group a (cs @ [(label, f c)]))"
  by (simp add: get_node_map_node_below map_entry_last)

lemma write_dims_loop_result:
  "write_dims_loop f D grp =
     (if D = [] then (Inr (), f)
      else (Inl (TypeError ''write_dim() missing 1 required positional argument: parent''), f))"
  by (cases D) (simp_all add: write_dim_call_def)

lemma h5_create_vacant:
  assumes "fmode f = ModeA" and "get_node t (root f) = Some (Group a cs)" and "map_of cs label = None"
  shows "h5_create f t label c = Inr (f\<lparr>root := map_node t (add_child label c) (root f)\<rparr>)"
    and "get_node t (map_node t (add_child label c) (root f)) = Some (Group a (cs @ [(label, c)]))"
  using assms by (simp_all add: h5_create_def get_node_map_node)

lemma fill_emdgroup_new:
  assumes rw: "fmode (file_hdl self) = ModeA"
    and t: "get_node t (root (file_hdl self)) = Some (Group a (cs @ [(label, Group [] [])]))"
    and fresh: "map_of cs label = None"
  shows "\<exists>self'. fill_emdgroup self (t @ [label]) A D =
           (if D = [] then Inr (t @ [label])
            else Inl (TypeError ''write_dim() missing 1 required positional argument: parent''),
            self') \<and>
          get_node t (root (file_hdl self')) =
            Some (Group a (cs @ [(label, Group [(''emd_group_type'', SInt 1)]
                                           [(''data'', Dataset [] A)])])) \<and>
          fmode (file_hdl self') = ModeA \<and> stdout self' = stdout self \<and>
          data self' = data self"
proof -
  let ?f = "file_hdl self"
  let ?g = "t @ [label]"
  have g0: "get_node ?g (root ?f) = Some (Group [] [])"
    by (rule get_node_last_child [OF t fresh])
  let ?f1 = "?f\<lparr>root := map_node ?g (set_group_attr ''emd_group_type'' (SInt 1)) (root ?f)\<rparr>"
  have a1: "attrs_set ?f ?g ''emd_group_type'' (SInt 1) = Inr ?f1"
    using rw g0 by (simp add: attrs_set_group)
  have t1: "get_node t (root ?f1) =
      Some (Group a (cs @ [(label, Group [(''emd_group_type'', SInt 1)] [])]))"
    using get_node_map_last_child [OF t fresh, of "set_group_attr ''emd_group_type'' (SInt 1)"]
    by simp
  have g1: "get_node ?g (root ?f1) = Some (Group [(''emd_group_type'', SInt 1)] [])"
    by (rule get_node_last_child [OF t1 fresh])
  have rw1: "fmode ?f1 = ModeA" using rw by simp
  let ?f2 = "?f1\<lparr>root := map_node ?g (add_child ''data'' (Dataset [] A)) (root ?f1)\<rparr>"
  have a2: "create_dataset ?f1 ?g ''data'' A = Inr ?f2"
    unfolding create_dataset_def by (rule h5_create_vacant(1) [OF rw1 g1]) simp
  have t2: "get_node t (root ?f2) =
      Some (Group a (cs @ [(label, Group [(''emd_group_type'', SInt 1)]
                                     [(''data'', Dataset [] A)])]))"
    using get_node_map_last_child [OF t1 fresh, of "add_child ''data'' (Dataset [] A)"]
    by simp
  show ?thesis
  proof (cases "D = []")
    case True
    let ?s = "self\<lparr>file_hdl := ?f2, list_emds := find_emdgroups ?f2 []\<rparr>"
    have "fill_emdgroup self ?g A D = (Inr ?g, ?s)"
      using True by (simp add: fill_emdgroup_def a1 a2 write_dims_loop_result)
    with t2 rw True show ?thesis by (intro exI [of _ ?s]) simp
  next
    case False
    let ?s = "self\<lparr>file_hdl := ?f2\<rparr>"
    have "fill_emdgroup self ?g A D =
        (Inl (TypeError ''write_dim() missing 1 required positional argument: parent''), ?s)"
      using False by (simp add: fill_emdgroup_def a1 a2 write_dims_loop_result)
    with t2 rw False show ?thesis by (intro exI [of _ ?s]) simp
  qed
qed

lemma put_emdgroup_try_vacant:
  assumes tg: "(case parent of Some p \<Rightarrow> Some p | None \<Rightarrow> data self) = Some t"
    and rw: "fmode (file_hdl self) = ModeA"
    and t: "get_node t (root (file_hdl self)) = Some (Group a cs)"
    and fresh: "map_of cs label = None"
  shows "\<exists>self'. put_emdgroup_try self label A D parent overwrite =
           (if D = [] then Inr (t @ [label])
            else Inl (TypeError ''write_dim() missing 1 required positional argument: parent''),
            self') \<and>
          get_node t (root (file_hdl self')) =
            Some (Group a (cs @ [(label, Group [(''emd_group_type'', SInt 1)]
                                           [(''data'', Dataset [] A)])])) \<and>
          stdout self' = stdout self"
proof -
  let ?f = "file_hdl self"
  let ?f2 = "?f\<lparr>root := map_node t (add_child label (Group [] [])) (root ?f)\<rparr>"
  have c: "create_group ?f t label = Inr ?f2"
    unfolding create_group_def by (rule h5_create_vacant(1) [OF rw t fresh])
  have t2: "get_node t (root (file_hdl (self\<lparr>file_hdl := ?f2\<rparr>))) =
      Some (Group a (cs @ [(label, Group [] [])]))"
    using h5_create_vacant(2) [OF rw t fresh] by simp
  have rw2: "fmode (file_hdl (self\<lparr>file_hdl := ?f2\<rparr>)) = ModeA" using rw by simp
  have e: "put_emdgroup_try self label A D parent overwrite =
      fill_emdgroup (self\<lparr>file_hdl := ?f2\<rparr>) (t @ [label]) A D"
    using t fresh by (simp add: put_emdgroup_try_def tg c h5_contains_def)
  from fill_emdgroup_new [OF rw2 t2 fresh, of A D] e show ?thesis by auto
qed




subsection \<open>The round trip through the store\<close>

text \<open>
  For an array with at least one axis, written to a vacant label of a writable file, the
  loop over the dims stops at its first call of \<^verbatim>\<open>write_dim\<close>: \<^verbatim>\<open>put_emdgroup\<close> prints that
  something went wrong and returns \<^verbatim>\<open>None\<close>, and the new group holds the attribute and the
  dataset but no dim vector.
\<close>

lemma put_emdgroup_dims_not_written:
  assumes tg: "(case parent of Some p \<Rightarrow> Some p | None \<Rightarrow> data self) = Some t"
    and rw: "fmode (file_hdl self) = ModeA"
    and t: "get_node t (root (file_hdl self)) = Some (Group a cs)"
    and fresh: "map_of cs label = None"
    and ok: "dims_ok D A"
    and rank: "D \<noteq> []"
  shows "\<exists>self'. put_emdgroup self (Str label) (Ndarray A) D parent overwrite = (Inr None, self') \<and>
           get_node (t @ [label]) (root (file_hdl self')) =
             Some (Group [(''emd_group_type'', SInt 1)] [(''data'', Dataset [] A)]) \<and>
           stdout self' = stdout self @ [WentWrongWriting]"
proof -
  from put_emdgroup_try_vacant [OF tg rw t fresh, of A D overwrite] rank
  obtain s where s: "put_emdgroup_try self label A D parent overwrite =
      (Inl (TypeError ''write_dim() missing 1 required positional argument: parent''), s)"
    and ts: "get_node t (root (file_hdl s)) =
            Some (Group a (cs @ [(label, Group [(''emd_group_type'', SInt 1)]
                                           [(''data'', Dataset [] A)])]))"
    and out: "stdout s = stdout self"
    by auto
  have p: "put_emdgroup self (Str label) (Ndarray A) D parent overwrite =
      (Inr None, print WentWrongWriting s)"
    using ok s by (simp add: put_emdgroup_def)
  have "get_node t (root (file_hdl (print WentWrongWriting s))) =
            Some (Group a (cs @ [(label, Group [(''emd_group_type'', SInt 1)]
                                           [(''data'', Dataset [] A)])]))"
    using ts by (simp add: print_def)
  from get_node_last_child [OF this fresh] p out show ?thesis
    by (intro exI [of _ "print WentWrongWriting s"]) (simp add: print_def)
qed

text \<open>
  \<^verbatim>\<open>write_dim\<close> itself, called with a label, writes a dim that \<^verbatim>\<open>get_emddims\<close> reads back
  unchanged.
\<close>

lemma write_dim_creates:
  assumes rw: "fmode f = ModeA"
    and t: "get_node parent (root f) = Some (Group a cs)"
    and fresh: "map_of cs l = None"
  shows "\<exists>f'. write_dim f l (v, name, units) parent = (Inr (parent @ [l]), f') \<and>
              h5_getitem f' parent l =
                Inr (Dataset [(''name'', DScalar (SBytes name)),
                              (''units'', DScalar (SBytes units))] v)"
proof -
  let ?g = "parent @ [l]"
  let ?f1 = "f\<lparr>root := map_node parent (add_child l (Dataset [] v)) (root f)\<rparr>"
  have c: "create_dataset f parent l v = Inr ?f1"
    unfolding create_dataset_def by (rule h5_create_vacant(1) [OF rw t fresh])
  have t1: "get_node parent (root ?f1) = Some (Group a (cs @ [(l, Dataset [] v)]))"
    using h5_create_vacant(2) [OF rw t fresh] by simp
  have g1: "get_node ?g (root ?f1) = Some (Dataset [] v)"
    by (rule get_node_last_child [OF t1 fresh])
  let ?n = "DScalar (SBytes name)"
  let ?u = "DScalar (SBytes units)"
  let ?f2 = "?f1\<lparr>root := map_node ?g (set_dset_attr ''name'' ?n) (root ?f1)\<rparr>"
  have a2: "dset_attrs_set ?f1 ?g ''name'' ?n = Inr ?f2"
    using rw g1 by (simp add: dset_attrs_set_def)
  have t2: "get_node parent (root ?f2) = Some (Group a (cs @ [(l, Dataset [(''name'', ?n)] v)]))"
    using get_node_map_last_child [OF t1 fresh, of "set_dset_attr ''name'' ?n"] by simp
  have g2: "get_node ?g (root ?f2) = Some (Dataset [(''name'', ?n)] v)"
    by (rule get_node_last_child [OF t2 fresh])
  let ?f3 = "?f2\<lparr>root := map_node ?g (set_dset_attr ''units'' ?u) (root ?f2)\<rparr>"
  have a3: "dset_attrs_set ?f2 ?g ''units'' ?u = Inr ?f3"
    using rw g2 by (simp add: dset_attrs_set_def)
  have t3: "get_node parent (root ?f3) =
      Some (Group a (cs @ [(l, Dataset [(''name'', ?n), (''units'', ?u)] v)]))"
    using get_node_map_last_child [OF t2 fresh, of "set_dset_attr ''units'' ?u"] by simp
  have w: "write_dim f l (v, name, units) parent = (Inr ?g, ?f3)"
    using c a2 a3 by (simp add: write_dim_def)
  have "map_of (cs @ [(l, Dataset [(''name'', ?n), (''units'', ?u)] v)]) l =
      Some (Dataset [(''name'', ?n), (''units'', ?u)] v)"
    by (rule map_of_fresh_append [OF fresh])
  then have "h5_getitem ?f3 parent l = Inr (Dataset [(''name'', ?n), (''units'', ?u)] v)"
    unfolding h5_getitem_def t3 by simp
  with w show ?thesis by blast
qed

lemma write_dim_then_read_dim:
  assumes rw: "fmode f = ModeA"
    and t: "get_node parent (root f) = Some (Group a cs)"
    and fresh: "map_of cs (''dim'' @ str_nat (i + 1)) = None"
    and axis: "shape v \<noteq> []"
  shows "\<exists>f'. write_dim f (''dim'' @ str_nat (i + 1)) (v, name, units) parent =
                 (Inr (parent @ [''dim'' @ str_nat (i + 1)]), f') \<and>
              read_dim f' parent i = Inr (v, name, units)"
proof -
  from write_dim_creates [OF rw t fresh, of v name units]
  obtain f' where w: "write_dim f (''dim'' @ str_nat (i + 1)) (v, name, units) parent =
                 (Inr (parent @ [''dim'' @ str_nat (i + 1)]), f')"
    and g: "h5_getitem f' parent (''dim'' @ str_nat (i + 1)) =
                Inr (Dataset [(''name'', DScalar (SBytes name)),
                              (''units'', DScalar (SBytes units))] v)"
    by blast
  have "read_dim f' parent i = Inr (v, name, units)"
    using g axis by (simp add: read_dim_def read_slice_def)
  with w show ?thesis by blast
qed

text \<open>
  Claim C1. The claim asks that writing an array with matching dims and reading the
  discovered group back gives the array and the dims. On the file that
  \<^verbatim>\<open>fileEMD('new.emd', readonly=False)\<close> creates, written with a one-dimensional array of two
  elements and one matching dim: the dims pass the check, \<^verbatim>\<open>put_emdgroup\<close> returns \<^verbatim>\<open>None\<close>
  and leaves \<^verbatim>\<open>/data/x\<close> without \<^verbatim>\<open>dim1\<close>, discovery finds \<^verbatim>\<open>/data/x\<close>, and
  \<^verbatim>\<open>get_emdgroup\<close> on it returns \<^verbatim>\<open>None\<close>, not the array and its dims.
\<close>

theorem put_emdgroup_roundtrip_rank1:
  "fileEMD_init FileEMD (\<lambda>n. Absent) (FStr ''new.emd'') False =
     Inr \<lparr>cls = FileEMD, filename = FStr ''new.emd'', readonly = False,
          file_hdl = \<lparr>root = Group [(''version_major'', SInt 0), (''version_minor'', SInt 2)]
                        [(''data'', Group [] []), (''microscope'', Group [] []),
                         (''sample'', Group [] []), (''user'', Group [] []),
                         (''comments'', Group [] [])],
                      fmode = ModeA\<rparr>,
          version = None, data = Some [''data''], microscope = Some [''microscope''],
          sample = Some [''sample''], user = Some [''user''], comments = Some [''comments''],
          list_emds = [], stdout = []\<rparr> \<and>
   dims_ok [(\<lparr>shape = [2], elems = [0, 1]\<rparr>, ''dim1'', ''unit1'')] \<lparr>shape = [2], elems = [5, 6]\<rparr> \<and>
   put_emdgroup
     \<lparr>cls = FileEMD, filename = FStr ''new.emd'', readonly = False,
      file_hdl = \<lparr>root = Group [(''version_major'', SInt 0), (''version_minor'', SInt 2)]
                    [(''data'', Group [] []), (''microscope'', Group [] []),
                     (''sample'', Group [] []), (''user'', Group [] []),
                     (''comments'', Group [] [])],
                  fmode = ModeA\<rparr>,
      version = None, data = Some [''data''], microscope = Some [''microscope''],
      sample = Some [''sample''], user = Some [''user''], comments = Some [''comments''],
      list_emds = [], stdout = []\<rparr>
     (Str ''x'') (Ndarray \<lparr>shape = [2], elems = [5, 6]\<rparr>)
     [(\<lparr>shape = [2], elems = [0, 1]\<rparr>, ''dim1'', ''unit1'')] None False =
   (Inr None,
    \<lparr>cls = FileEMD, filename = FStr ''new.emd'', readonly = False,
      file_hdl = \<lparr>root = Group [(''version_major'', SInt 0), (''version_minor'', SInt 2)]
                    [(''data'', Group []
                        [(''x'', Group [(''emd_group_type'', SInt 1)]
                                   [(''data'', Dataset [] \<lparr>shape = [2], elems = [5, 6]\<rparr>)])]),
                     (''microscope'', Group [] []),
                     (''sample'', Group [] []), (''user'', Group [] []),
                     (''comments'', Group [] [])],
                  fmode = ModeA\<rparr>,
      version = None, data = Some [''data''], microscope = Some [''microscope''],
      sample = Some [''sample''], user = Some [''user''], comments = Some [''comments''],
      list_emds = [], stdout = [WentWrongWriting]\<rparr>) \<and>
   find_emdgroups
     \<lparr>root = Group [(''version_major'', SInt 0), (''version_minor'', SInt 2)]
                    [(''data'', Group []
                        [(''x'', Group [(''emd_group_type'', SInt 1)]
                                   [(''data'', Dataset [] \<lparr>shape = [2], elems = [5, 6]\<rparr>)])]),
                     (''microscope'', Group [] []),
                     (''sample'', Group [] []), (''user'', Group [] []),
                     (''comments'', Group [] [])],
                  fmode = ModeA\<rparr> [] = [[''data'', ''x'']] \<and>
   fst (get_emdgroup
     \<lparr>cls = FileEMD, filename = FStr ''new.emd'', readonly = False,
      file_hdl = \<lparr>root = Group [(''version_major'', SInt 0), (''version_minor'', SInt 2)]
                    [(''data'', Group []
                        [(''x'', Group [(''emd_group_type'', SInt 1)]
                                   [(''data'', Dataset [] \<lparr>shape = [2], elems = [5, 6]\<rparr>)])]),
                     (''microscope'', Group [] []),
                     (''sample'', Group [] []), (''user'', Group [] []),
                     (''comments'', Group [] [])],
                  fmode = ModeA\<rparr>,
      version = None, data = Some [''data''], microscope = Some [''microscope''],
      sample = Some [''sample''], user = Some [''user''], comments = Some [''comments''],
      list_emds = [], stdout = [WentWrongWriting]\<rparr>
     (GroupH [''data'', ''x'']) False) = Inr None"
proof (intro conjI)
  show "fileEMD_init FileEMD (\<lambda>n. Absent) (FStr ''new.emd'') False =
     Inr \<lparr>cls = FileEMD, filename = FStr ''new.emd'', readonly = False,
          file_hdl = \<lparr>root = Group [(''version_major'', SInt 0), (''version_minor'', SInt 2)]
                        [(''data'', Group [] []), (''microscope'', Group [] []),
                         (''sample'', Group [] []), (''user'', Group [] []),
                         (''comments'', Group [] [])],
                      fmode = ModeA\<rparr>,
          version = None, data = Some [''data''], microscope = Some [''microscope''],
          sample = Some [''sample''], user = Some [''user''], comments = Some [''comments''],
          list_emds = [], stdout = []\<rparr>"
    by (simp add: fileEMD_init_def h5py_File_def check_version_def check_version_v02_def
        has_version_def attrs_set_def init_group_def h5_contains_def create_group_def
        h5_create_def find_emdgroups_def)
qed (simp_all add: dims_ok_def put_emdgroup_def put_emdgroup_try_def h5_contains_def
      create_group_def create_dataset_def h5_create_def fill_emdgroup_def attrs_set_def
      write_dim_call_def print_def find_emdgroups_def get_emdgroup_def get_emdgroup_h5_def
      retrieve_data_def get_dset_string_def h5_getitem_def read_slice_def get_emddims_def
      read_dim_def str_nat.simps digit_char_def)

end
